theory Spec2Isabelle
  imports Main "HOL-Library.Word" "HOL-Library.Multiset" "HOL-Library.List_Lexorder"
begin

unbundle bit_operations_syntax

section \<open>Data model of dlls/crypt32/encode.c\<close>

text \<open>
  The C types of the file: \<open>BYTE\<close>, \<open>WORD\<close> and \<open>DWORD\<close> are unsigned machine
  integers of 8, 16 and 32 bits, \<open>int\<close> is a 32-bit two's complement integer (the same
  words, read with \<open>sint\<close>), a \<open>FILETIME\<close> is a 64-bit count.

  A pointer to bytes is modelled by the memory found behind it: a function from the
  offset to the byte stored there, \<open>None\<close> for the null pointer. The byte count that
  travels with a pointer (\<open>cbEncoded\<close>, \<open>*pcbEncoded\<close>, \<open>cbData\<close>) is a separate
  value, as in C: the code may read or write behind it, and the model then reads or
  writes the same offsets.
\<close>

type_synonym BYTE = "8 word"
type_synonym WORD = "16 word"
type_synonym DWORD = "32 word"
type_synonym C_int = "32 word"
type_synonym FILETIME = "64 word"
type_synonym mem = "nat \<Rightarrow> BYTE"

text \<open>The memory that holds the given bytes, followed by zero bytes.\<close>

definition mem_of :: "BYTE list \<Rightarrow> mem" where
  "mem_of bs = (\<lambda>i. if i < length bs then bs ! i else 0)"

text \<open>\<open>memcpy\<close> out of a memory: the \<open>n\<close> bytes from offset \<open>off\<close> on.\<close>

definition bytes_from :: "mem \<Rightarrow> nat \<Rightarrow> nat \<Rightarrow> BYTE list" where
  "bytes_from m off n = map (\<lambda>i. m (off + i)) [0..<n]"

text \<open>
  The error codes the file passes to \<open>SetLastError\<close>. \<open>E_INVALIDARG\<close> stands for
  \<open>HRESULT_FROM_WIN32(ERROR_INVALID_PARAMETER)\<close>, a value different from
  \<open>ERROR_INVALID_PARAMETER\<close>. In the words of the specification: \<open>ERROR_MORE_DATA\<close>
  is BufferTooSmall, \<open>ERROR_INVALID_PARAMETER\<close> is InvalidParameter,
  \<open>ERROR_FILE_NOT_FOUND\<close> is NotFound, \<open>CRYPT_E_ASN1_EOD\<close> is EndOfData,
  \<open>CRYPT_E_ASN1_LARGE\<close> is TooLarge, \<open>CRYPT_E_ASN1_CORRUPT\<close> is Corrupt,
  \<open>CRYPT_E_ASN1_BADTAG\<close> is BadTag and \<open>CRYPT_E_BAD_ENCODE\<close> is BadEncode.
\<close>

datatype error =
    ERROR_INVALID_PARAMETER
  | ERROR_FILE_NOT_FOUND
  | ERROR_MORE_DATA
  | STATUS_ACCESS_VIOLATION
  | E_INVALIDARG
  | CRYPT_E_ASN1_ERROR
  | CRYPT_E_ASN1_EOD
  | CRYPT_E_ASN1_CORRUPT
  | CRYPT_E_ASN1_LARGE
  | CRYPT_E_ASN1_BADTAG
  | CRYPT_E_BAD_ENCODE

text \<open>
  What an encoder leaves behind when it returns: the \<open>BOOL\<close> it returns, the error it
  passed to \<open>SetLastError\<close> (\<open>None\<close> when it set none), the value of the size cell
  \<open>*pcbEncoded\<close>, the bytes it stored from the start of the output buffer on (the empty
  list when it stored none), and the size of the buffer it allocated for the caller
  under \<open>CRYPT_ENCODE_ALLOC_FLAG\<close> (the bytes are then stored in that buffer).
\<close>

record enc_result =
  ret :: bool
  last_error :: "error option"
  size_cell :: DWORD
  written :: "BYTE list"
  allocated :: "DWORD option"

definition enc_fail :: "error option \<Rightarrow> DWORD \<Rightarrow> enc_result" where
  "enc_fail e cb = \<lparr>ret = False, last_error = e, size_cell = cb, written = [], allocated = None\<rparr>"

definition enc_ok :: "DWORD \<Rightarrow> BYTE list \<Rightarrow> enc_result" where
  "enc_ok cb bs = \<lparr>ret = True, last_error = None, size_cell = cb, written = bs, allocated = None\<rparr>"

text \<open>
  Constants of the Windows headers (\<open>snmp.h\<close>, \<open>wincrypt.h\<close>), which are not part of
  the file: the ASN.1 tag octets are those of X.690, which the wire examples of the
  specification show (\<open>02\<close> INTEGER, \<open>03\<close> BIT STRING, \<open>06\<close> OBJECT IDENTIFIER,
  \<open>17\<close> UTCTime); the tags the file defines itself follow its \<open>#define\<close> lines.
\<close>

definition ASN_UNIVERSAL :: BYTE where "ASN_UNIVERSAL = 0x00"
definition ASN_PRIMITIVE :: BYTE where "ASN_PRIMITIVE = 0x00"
definition ASN_CONSTRUCTOR :: BYTE where "ASN_CONSTRUCTOR = 0x20"
definition ASN_INTEGER :: BYTE where "ASN_INTEGER = (ASN_UNIVERSAL OR ASN_PRIMITIVE OR 0x02)"
definition ASN_OBJECTIDENTIFIER :: BYTE where
  "ASN_OBJECTIDENTIFIER = (ASN_UNIVERSAL OR ASN_PRIMITIVE OR 0x06)"
definition ASN_SEQUENCE :: BYTE where "ASN_SEQUENCE = (ASN_UNIVERSAL OR ASN_PRIMITIVE OR 0x10)"
definition ASN_SEQUENCEOF :: BYTE where "ASN_SEQUENCEOF = (ASN_UNIVERSAL OR ASN_PRIMITIVE OR 0x10)"
definition ASN_BITSTRING :: BYTE where "ASN_BITSTRING = (ASN_UNIVERSAL OR ASN_PRIMITIVE OR 0x03)"
definition ASN_OCTETSTRING :: BYTE where "ASN_OCTETSTRING = (ASN_UNIVERSAL OR ASN_PRIMITIVE OR 0x04)"
definition ASN_ENUMERATED :: BYTE where "ASN_ENUMERATED = (ASN_UNIVERSAL OR ASN_PRIMITIVE OR 0x0a)"
definition ASN_SETOF :: BYTE where "ASN_SETOF = (ASN_UNIVERSAL OR ASN_PRIMITIVE OR 0x11)"
definition ASN_NUMERICSTRING :: BYTE where
  "ASN_NUMERICSTRING = (ASN_UNIVERSAL OR ASN_PRIMITIVE OR 0x12)"
definition ASN_PRINTABLESTRING :: BYTE where
  "ASN_PRINTABLESTRING = (ASN_UNIVERSAL OR ASN_PRIMITIVE OR 0x13)"
definition ASN_IA5STRING :: BYTE where "ASN_IA5STRING = (ASN_UNIVERSAL OR ASN_PRIMITIVE OR 0x16)"
definition ASN_UTCTIME :: BYTE where "ASN_UTCTIME = (ASN_UNIVERSAL OR ASN_PRIMITIVE OR 0x17)"
definition ASN_GENERALTIME :: BYTE where "ASN_GENERALTIME = (ASN_UNIVERSAL OR ASN_PRIMITIVE OR 0x18)"

definition CRYPT_ENCODE_ALLOC_FLAG :: DWORD where "CRYPT_ENCODE_ALLOC_FLAG = 0x8000"
definition CRYPT_DECODE_ALLOC_FLAG :: DWORD where "CRYPT_DECODE_ALLOC_FLAG = 0x8000"

lemmas tag_defs =
  ASN_UNIVERSAL_def ASN_PRIMITIVE_def ASN_CONSTRUCTOR_def ASN_INTEGER_def
  ASN_OBJECTIDENTIFIER_def ASN_SEQUENCE_def ASN_SEQUENCEOF_def ASN_BITSTRING_def
  ASN_OCTETSTRING_def ASN_ENUMERATED_def ASN_SETOF_def ASN_NUMERICSTRING_def
  ASN_PRINTABLESTRING_def ASN_IA5STRING_def ASN_UTCTIME_def ASN_GENERALTIME_def

text \<open>
  The allocator an encoder or decoder uses under the allocation flag:
  \<open>pEncodePara->pfnAlloc\<close> when the caller gave one, \<open>LocalAlloc\<close> otherwise. Only
  whether the allocation of a size returns memory matters to the codec.
\<close>

record CRYPT_PARA =
  pfnAlloc :: "(DWORD \<Rightarrow> bool) option"

record kernel32 =
  LocalAlloc :: "DWORD \<Rightarrow> bool"

definition do_alloc :: "kernel32 \<Rightarrow> CRYPT_PARA option \<Rightarrow> DWORD \<Rightarrow> bool" where
  "do_alloc os para n =
     (case para of
        Some p \<Rightarrow> (case pfnAlloc p of Some f \<Rightarrow> f n | None \<Rightarrow> LocalAlloc os n)
      | None \<Rightarrow> LocalAlloc os n)"

section \<open>Shared encode helpers\<close>

text \<open>
  \<open>CRYPT_EncodeEnsureSpace\<close>: checks \<open>*pcbEncoded\<close>, sets it to the required size and
  allocates under the flag. \<open>cb\<close> is the value of \<open>*pcbEncoded\<close> at the call.
\<close>

definition CRYPT_EncodeEnsureSpace ::
  "kernel32 \<Rightarrow> DWORD \<Rightarrow> CRYPT_PARA option \<Rightarrow> DWORD \<Rightarrow> DWORD \<Rightarrow> enc_result" where
  "CRYPT_EncodeEnsureSpace os dwFlags pEncodePara cb bytesNeeded =
     (if dwFlags AND CRYPT_ENCODE_ALLOC_FLAG \<noteq> 0 then
        (if \<not> do_alloc os pEncodePara bytesNeeded then enc_fail None cb
         else (enc_ok bytesNeeded [])\<lparr>allocated := Some bytesNeeded\<rparr>)
      else if bytesNeeded > cb then enc_fail (Some ERROR_MORE_DATA) bytesNeeded
      else enc_ok cb [])"

text \<open>
  \<open>CRYPT_EncodeLen\<close>. The loop that counts the significant bytes of \<open>len\<close> starts at
  \<open>sizeof(DWORD)\<close> and shifts \<open>temp\<close> left until its top byte is not zero; it is only
  entered with \<open>len > 0x7f\<close>, so it stops before the counter reaches 0.
\<close>

fun significant_loop :: "nat \<Rightarrow> DWORD \<Rightarrow> nat" where
  "significant_loop 0 temp = 0"
| "significant_loop (Suc n) temp =
     (if temp AND 0xff000000 = 0 then significant_loop n (push_bit 8 temp) else Suc n)"

text \<open>
  The store loop of \<open>CRYPT_EncodeLen\<close> writes \<open>len & 0xff\<close> at offset
  \<open>significantBytes - i - 1\<close> and shifts \<open>len\<close> right: \<open>low_bytes\<close> lists the bytes
  in the order of \<open>i\<close>, the buffer holds them reversed.
\<close>

fun low_bytes :: "nat \<Rightarrow> DWORD \<Rightarrow> BYTE list" where
  "low_bytes 0 len = []"
| "low_bytes (Suc n) len = ucast (len AND 0xff) # low_bytes n (drop_bit 8 len)"

definition EncodeLen_bytesNeeded :: "DWORD \<Rightarrow> DWORD" where
  "EncodeLen_bytesNeeded len =
     (if len \<le> 0x7f then 1 else of_nat (significant_loop 4 len) + 1)"

definition CRYPT_EncodeLen :: "DWORD \<Rightarrow> mem option \<Rightarrow> DWORD \<Rightarrow> enc_result" where
  "CRYPT_EncodeLen len pbEncoded cb =
     (let significantBytes = (if len \<le> 0x7f then 0 else significant_loop 4 len);
          bytesNeeded = EncodeLen_bytesNeeded len
      in if pbEncoded = None then enc_ok bytesNeeded []
         else if cb < bytesNeeded then enc_fail (Some ERROR_MORE_DATA) cb
         else if len \<le> 0x7f then enc_ok bytesNeeded [ucast len]
         else enc_ok bytesNeeded
                ((of_nat significantBytes OR 0x80) # rev (low_bytes significantBytes len)))"

text \<open>The length octets \<open>CRYPT_EncodeLen\<close> stores when the buffer is large enough.\<close>

definition len_octets :: "DWORD \<Rightarrow> BYTE list" where
  "len_octets len = written (CRYPT_EncodeLen len (Some (\<lambda>_. 0)) (EncodeLen_bytesNeeded len))"

section \<open>Bit string encoder\<close>

text \<open>
  \<open>CRYPT_DATA_BLOB\<close> (also named \<open>CRYPT_DER_BLOB\<close> and \<open>CRYPT_INTEGER_BLOB\<close>)
  is a byte count and a pointer; \<open>CRYPT_BIT_BLOB\<close> has the same two fields and the
  count of unused bits.
\<close>

record CRYPT_DATA_BLOB =
  cbData :: DWORD
  pbData :: mem

record CRYPT_BIT_BLOB = CRYPT_DATA_BLOB +
  cUnusedBits :: DWORD

text \<open>
  \<open>CRYPT_AsnEncodeBits\<close>. \<open>pvStructInfo\<close> is \<open>None\<close> for the null pointer. The mask
  is \<open>0xff << unusedBits\<close> cut to a byte.
\<close>

definition CRYPT_AsnEncodeBits ::
  "kernel32 \<Rightarrow> CRYPT_BIT_BLOB option \<Rightarrow> DWORD \<Rightarrow> CRYPT_PARA option \<Rightarrow> mem option \<Rightarrow> DWORD
     \<Rightarrow> enc_result" where
  "CRYPT_AsnEncodeBits os pvStructInfo dwFlags pEncodePara pbEncoded cb =
     (case pvStructInfo of
        None \<Rightarrow> enc_fail (Some STATUS_ACCESS_VIOLATION) cb
      | Some blob \<Rightarrow>
          let dataBytes :: DWORD =
                (if cbData blob * 8 > cUnusedBits blob
                 then (cbData blob * 8 - cUnusedBits blob) div 8 + 1 else 0);
              unusedBits :: BYTE =
                (if cbData blob * 8 > cUnusedBits blob
                 then (if cUnusedBits blob \<ge> 8 then ucast (cUnusedBits blob div 8)
                       else ucast (cUnusedBits blob))
                 else 0);
              lenBytes = EncodeLen_bytesNeeded (dataBytes + 1);
              bytesNeeded = 1 + lenBytes + dataBytes + 1
          in if pbEncoded = None then enc_ok bytesNeeded []
             else
               let space = CRYPT_EncodeEnsureSpace os dwFlags pEncodePara cb bytesNeeded
               in if \<not> ret space then space
                  else
                    let mask :: BYTE = push_bit (unat unusedBits) 0xff
                    in space\<lparr>written :=
                         [ASN_BITSTRING]
                         @ written (CRYPT_EncodeLen (dataBytes + 1) pbEncoded lenBytes)
                         @ [unusedBits]
                         @ (if dataBytes \<noteq> 0
                            then bytes_from (pbData blob) 0 (unat dataBytes - 1)
                                 @ [pbData blob (unat dataBytes - 1) AND mask]
                            else [])\<rparr>)"

section \<open>Time encoders\<close>

record SYSTEMTIME =
  wYear :: WORD
  wMonth :: WORD
  wDayOfWeek :: WORD
  wDay :: WORD
  wHour :: WORD
  wMinute :: WORD
  wSecond :: WORD
  wMilliseconds :: WORD

text \<open>
  \<open>FileTimeToSystemTime\<close> and \<open>SystemTimeToFileTime\<close> belong to kernel32 and are not
  part of the file: the codecs take them as parameters (\<open>None\<close> when the call returns
  \<open>FALSE\<close>).
\<close>

record timeapi =
  FileTimeToSystemTime :: "FILETIME \<Rightarrow> SYSTEMTIME option"
  SystemTimeToFileTime :: "SYSTEMTIME \<Rightarrow> FILETIME option"

text \<open>
  \<open>snprintf\<close> with \<open>%02d\<close>, and with \<open>%d\<close> and \<open>%ld\<close> at width 0: the decimal digits
  of an \<open>int\<close>, padded with zeros on the left to the width, the sign counted in the
  width.
\<close>

fun digits_of :: "nat \<Rightarrow> nat \<Rightarrow> string" where
  "digits_of 0 n = []"
| "digits_of (Suc fuel) n =
     (if n < 10 then [char_of (48 + n)]
      else digits_of fuel (n div 10) @ [char_of (48 + n mod 10)])"

definition decimal :: "nat \<Rightarrow> string" where
  "decimal n = digits_of (Suc n) n"

definition fmt_0d :: "nat \<Rightarrow> int \<Rightarrow> string" where
  "fmt_0d width v =
     (if v < 0
      then CHR ''-'' # replicate (width - 1 - length (decimal (nat (- v)))) CHR ''0''
           @ decimal (nat (- v))
      else replicate (width - length (decimal (nat v))) CHR ''0'' @ decimal (nat v))"

definition ascii :: "string \<Rightarrow> BYTE list" where
  "ascii s = map (\<lambda>c. of_nat (of_char c)) s"

text \<open>
  \<open>CRYPT_AsnEncodeUtcTime\<close>. The buffer \<open>buf\<close> has 16 bytes, \<open>bytesNeeded\<close> is 15;
  \<open>snprintf\<close> stores at most 13 characters behind the tag and the length, and
  \<open>memcpy\<close> copies the 15 bytes. The arguments of \<open>snprintf\<close> are, in the order of
  the source, the two-digit year, \<open>wDay\<close>, \<open>wMonth\<close>, \<open>wHour\<close>, \<open>wMinute\<close> and
  \<open>wSecond\<close>.
\<close>

definition UtcTime_bytesNeeded :: DWORD where
  "UtcTime_bytesNeeded = 16 - 1"

definition UtcTime_text :: "SYSTEMTIME \<Rightarrow> string" where
  "UtcTime_text sysTime =
     take 13
       (fmt_0d 2 (if wYear sysTime \<ge> 2000 then uint (wYear sysTime) - 2000
                  else uint (wYear sysTime) - 1900)
        @ fmt_0d 2 (uint (wDay sysTime))
        @ fmt_0d 2 (uint (wMonth sysTime))
        @ fmt_0d 2 (uint (wHour sysTime))
        @ fmt_0d 2 (uint (wMinute sysTime))
        @ fmt_0d 2 (uint (wSecond sysTime))
        @ ''Z'')"

definition CRYPT_AsnEncodeUtcTime ::
  "kernel32 \<Rightarrow> timeapi \<Rightarrow> FILETIME option \<Rightarrow> DWORD \<Rightarrow> CRYPT_PARA option \<Rightarrow> mem option
     \<Rightarrow> DWORD \<Rightarrow> enc_result" where
  "CRYPT_AsnEncodeUtcTime os tm pvStructInfo dwFlags pEncodePara pbEncoded cb =
     (case pvStructInfo of
        None \<Rightarrow> enc_fail (Some STATUS_ACCESS_VIOLATION) cb
      | Some ft \<Rightarrow>
          (case FileTimeToSystemTime tm ft of
             None \<Rightarrow> enc_fail None cb
           | Some sysTime \<Rightarrow>
               if wYear sysTime < 1950 \<or> wYear sysTime > 2050
               then enc_fail (Some CRYPT_E_BAD_ENCODE) cb
               else if pbEncoded = None then enc_ok UtcTime_bytesNeeded []
               else
                 let space = CRYPT_EncodeEnsureSpace os dwFlags pEncodePara cb UtcTime_bytesNeeded
                 in if \<not> ret space then space
                    else space\<lparr>written :=
                           [ASN_UTCTIME, ucast (UtcTime_bytesNeeded - 2)]
                           @ ascii (UtcTime_text sysTime)\<rparr>))"

section \<open>Object identifier encoder\<close>

text \<open>
  \<open>sscanf\<close> with \<open>%d\<close>: white space is skipped, a sign may follow, then at least one
  decimal digit is needed; the conversion stops at the first character that is not a
  digit. The result is the value, stored in an \<open>int\<close>, and the text behind the
  conversion (what \<open>%n\<close> counts). A value outside the range of \<open>int\<close> is undefined
  in C; the model keeps its low 32 bits.
\<close>

definition isspace :: "char \<Rightarrow> bool" where
  "isspace c = (of_char c \<in> {9, 10, 11, 12, 13, 32 :: nat})"

definition isdigit_char :: "char \<Rightarrow> bool" where
  "isdigit_char c = (48 \<le> (of_char c :: nat) \<and> (of_char c :: nat) \<le> 57)"

fun scan_digits :: "int \<Rightarrow> string \<Rightarrow> int \<times> string" where
  "scan_digits acc [] = (acc, [])"
| "scan_digits acc (c # cs) =
     (if isdigit_char c then scan_digits (acc * 10 + (int (of_char c) - 48)) cs
      else (acc, c # cs))"

definition scan_sign :: "string \<Rightarrow> bool \<times> string" where
  "scan_sign s =
     (case s of
        [] \<Rightarrow> (False, [])
      | c # cs \<Rightarrow> if c = CHR ''-'' then (True, cs)
                  else if c = CHR ''+'' then (False, cs) else (False, s))"

definition scan_int :: "string \<Rightarrow> (C_int \<times> string) option" where
  "scan_int s =
     (let (neg, s2) = scan_sign (dropWhile isspace s)
      in case s2 of
           [] \<Rightarrow> None
         | c # cs \<Rightarrow>
             if isdigit_char c
             then (let (v, rest) = scan_digits 0 s2
                   in Some (word_of_int (if neg then - v else v), rest))
             else None)"

text \<open>
  \<open>sscanf(pszObjId, "%d.%d.%n", &val1, &val2, &firstPos)\<close> must return 2. When the
  second dot is missing the call still returns 2, but \<open>%n\<close> is not reached and
  \<open>firstPos\<close> keeps its initial value 0. The result is \<open>val1\<close>, \<open>val2\<close> and the text
  at \<open>pszObjId + firstPos\<close>.
\<close>

definition scan_first :: "string \<Rightarrow> (C_int \<times> C_int \<times> string) option" where
  "scan_first s =
     (case scan_int s of
        None \<Rightarrow> None
      | Some (val1, r1) \<Rightarrow>
          (case r1 of
             [] \<Rightarrow> None
           | c # r2 \<Rightarrow>
               if c \<noteq> CHR ''.'' then None
               else (case scan_int r2 of
                       None \<Rightarrow> None
                     | Some (val2, r3) \<Rightarrow>
                         (case r3 of
                            [] \<Rightarrow> Some (val1, val2, s)
                          | d # r4 \<Rightarrow>
                              if d = CHR ''.'' then Some (val1, val2, r4)
                              else Some (val1, val2, s)))))"

text \<open>The number of content bytes of one arc: signed comparisons of an \<open>int\<close>.\<close>

definition arc_bytes :: "C_int \<Rightarrow> nat" where
  "arc_bytes val =
     (if word_sle 0x10000000 val then 5
      else if word_sle 0x200000 val then 4
      else if word_sle 0x4000 val then 3
      else if word_sle 0x80 val then 2
      else 1)"

text \<open>\<open>if (*ptr == '.') ptr++\<close>\<close>

definition skip_dot :: "string \<Rightarrow> string" where
  "skip_dot ptr = (case ptr of [] \<Rightarrow> [] | c # cs \<Rightarrow> if c = CHR ''.'' then cs else ptr)"

lemma scan_digits_length: "length (snd (scan_digits acc s)) \<le> length s"
  by (induction s arbitrary: acc) (auto intro: le_SucI)

lemma scan_digits_shorter:
  "isdigit_char c \<Longrightarrow> length (snd (scan_digits acc (c # cs))) < Suc (length cs)"
  using scan_digits_length [of "acc * 10 + (int (of_char c) - 48)" cs] by simp

lemma scan_sign_length: "length (snd (scan_sign s)) \<le> length s"
  by (auto simp: scan_sign_def split: list.splits)

lemma scan_int_shorter:
  assumes "scan_int s = Some (v, rest)"
  shows "length rest < length s"
proof -
  obtain neg s2 where s2: "scan_sign (dropWhile isspace s) = (neg, s2)"
    by (cases "scan_sign (dropWhile isspace s)")
  have le: "length s2 \<le> length s"
    using scan_sign_length [of "dropWhile isspace s"] length_dropWhile_le [of isspace s] s2
    by simp
  from assms s2 obtain c cs where c: "s2 = c # cs" "isdigit_char c"
    and r: "rest = snd (scan_digits 0 s2)"
    by (auto simp: scan_int_def split: list.splits if_splits prod.splits)
  from scan_digits_shorter [OF c(2), of 0 cs] c(1) r have "length rest < length s2"
    by simp
  with le show ?thesis by simp
qed

lemma skip_dot_length: "length (skip_dot r) \<le> length r"
  by (auto simp: skip_dot_def split: list.splits)

text \<open>
  The sizing loop over the remaining arcs: \<open>None\<close> when an arc does not parse
  (\<open>CRYPT_E_ASN1_ERROR\<close>), the grown \<open>bytesNeeded\<close> otherwise.
\<close>

function oid_arcs_size :: "string \<Rightarrow> DWORD \<Rightarrow> DWORD option" where
  "oid_arcs_size ptr bytesNeeded =
     (if ptr = [] then Some bytesNeeded
      else case scan_int ptr of
             None \<Rightarrow> None
           | Some (val1, rest) \<Rightarrow>
               oid_arcs_size (skip_dot rest) (bytesNeeded + of_nat (arc_bytes val1)))"
  by pat_completeness auto
termination
proof (relation "measure (\<lambda>(ptr, _). length ptr)")
  show "wf (measure (\<lambda>(ptr, _). length ptr))" by simp
next
  fix ptr :: string and bytesNeeded :: DWORD and x2 x y
  assume "scan_int ptr = Some x2" "(x, y) = x2"
  then have "length y < length ptr"
    using scan_int_shorter [of ptr x y] by simp
  then show "((skip_dot y, bytesNeeded + of_nat (arc_bytes x)), (ptr, bytesNeeded))
      \<in> measure (\<lambda>(ptr, _). length ptr)"
    using skip_dot_length [of y] by simp
qed

text \<open>
  The store loop of one arc: \<open>outBytes[i - 1] = val & 0x7f; val >>= 7\<close> for
  \<open>i\<close> from \<open>numBytes\<close> down to 1, then every byte but the last with the high bit set.
\<close>

fun outBytes :: "nat \<Rightarrow> C_int \<Rightarrow> BYTE list" where
  "outBytes 0 val = []"
| "outBytes (Suc n) val = outBytes n (signed_drop_bit 7 val) @ [ucast (val AND 0x7f)]"

definition arc_octets :: "C_int \<Rightarrow> BYTE list" where
  "arc_octets val =
     (let ob = outBytes (arc_bytes val) val
      in map (\<lambda>b. b OR 0x80) (butlast ob) @ [last ob])"

text \<open>
  The store loop over the remaining arcs. It parses the text the sizing loop has
  parsed, so the conversion does not fail here (the source does not check it).
\<close>

function oid_arcs_octets :: "string \<Rightarrow> BYTE list" where
  "oid_arcs_octets ptr =
     (if ptr = [] then []
      else case scan_int ptr of
             None \<Rightarrow> []
           | Some (val, rest) \<Rightarrow> arc_octets val @ oid_arcs_octets (skip_dot rest))"
  by pat_completeness auto
termination
proof (relation "measure length")
  show "wf (measure length)" by simp
next
  fix ptr :: string and x2 x y
  assume "scan_int ptr = Some x2" "(x, y) = x2"
  then have "length y < length ptr"
    using scan_int_shorter [of ptr x y] by simp
  then show "(skip_dot y, ptr) \<in> measure length"
    using skip_dot_length [of y] by simp
qed

text \<open>The memory behind a pointer advanced by \<open>n\<close> bytes.\<close>

definition advance :: "mem \<Rightarrow> nat \<Rightarrow> mem" where
  "advance m n = (\<lambda>i. m (i + n))"

text \<open>
  The first half of \<open>CRYPT_AsnEncodeOid\<close>, which parses the text: the number of
  content bytes, \<open>lenBytes\<close>, \<open>firstByte\<close> and the text at \<open>pszObjId + firstPos\<close>,
  or \<open>None\<close> for \<open>CRYPT_E_ASN1_ERROR\<close>. For the null pointer there are no content
  bytes and \<open>lenBytes\<close> is 1.
\<close>

definition Oid_sizes :: "string option \<Rightarrow> (DWORD \<times> DWORD \<times> BYTE \<times> string) option" where
  "Oid_sizes pszObjId =
     (case pszObjId of
        None \<Rightarrow> Some (0, 1, 0, [])
      | Some s \<Rightarrow>
          (case scan_first s of
             None \<Rightarrow> None
           | Some (val1, val2, ptr) \<Rightarrow>
               (case oid_arcs_size ptr 1 of
                  None \<Rightarrow> None
                | Some n \<Rightarrow>
                    Some (n, EncodeLen_bytesNeeded n, ucast (val1 * 40 + val2), ptr))))"

text \<open>
  \<open>CRYPT_AsnEncodeOid\<close>. \<open>pszObjId\<close> is the dotted text (\<open>None\<close> for the null
  pointer), \<open>pbEncoded\<close> the memory behind the output pointer, \<open>cb\<close> the value of
  \<open>*pcbEncoded\<close>. The check before the store reads \<open>*pbEncoded\<close>, the byte at the
  start of the output buffer, as the source does.
\<close>

definition CRYPT_AsnEncodeOid :: "string option \<Rightarrow> mem option \<Rightarrow> DWORD \<Rightarrow> enc_result" where
  "CRYPT_AsnEncodeOid pszObjId pbEncoded cb =
     (case Oid_sizes pszObjId of
        None \<Rightarrow> enc_fail (Some CRYPT_E_ASN1_ERROR) cb
      | Some (contentBytes, lenBytes, firstByte, ptr) \<Rightarrow>
          (let bytesNeeded = contentBytes + (1 + lenBytes)
           in (case pbEncoded of
                 None \<Rightarrow> enc_ok bytesNeeded []
               | Some m \<Rightarrow>
                   if ucast (m 0) < bytesNeeded
                   then enc_fail (Some ERROR_MORE_DATA) bytesNeeded
                   else enc_ok bytesNeeded
                          ([ASN_OBJECTIDENTIFIER]
                           @ written (CRYPT_EncodeLen (bytesNeeded - 1 - lenBytes)
                                        (Some (advance m 1)) lenBytes)
                           @ (if pszObjId = None then []
                              else firstByte # oid_arcs_octets ptr)))))"

section \<open>Name value, attribute and RDN encoders\<close>

text \<open>
  \<open>CERT_NAME_VALUE\<close> is a string kind and a blob. \<open>CERT_RDN_ATTR\<close> is an object
  identifier followed by the same two fields; the source passes the address of its
  \<open>dwValueType\<close> field where a \<open>CERT_NAME_VALUE\<close> is expected, which the record
  extension models. The values of the string kinds are those of \<open>wincrypt.h\<close>.
\<close>

record CERT_NAME_VALUE =
  dwValueType :: DWORD
  Value :: CRYPT_DATA_BLOB

record CERT_RDN_ATTR = CERT_NAME_VALUE +
  pszObjId :: "string option"

definition CERT_RDN_ANY_TYPE :: DWORD where "CERT_RDN_ANY_TYPE = 0"
definition CERT_RDN_NUMERIC_STRING :: DWORD where "CERT_RDN_NUMERIC_STRING = 3"
definition CERT_RDN_PRINTABLE_STRING :: DWORD where "CERT_RDN_PRINTABLE_STRING = 4"
definition CERT_RDN_IA5_STRING :: DWORD where "CERT_RDN_IA5_STRING = 7"

text \<open>
  The first \<open>switch\<close> of \<open>CRYPT_AsnEncodeNameValue\<close>: the tag of a supported string
  kind, or the failure (\<open>CERT_RDN_ANY_TYPE\<close> sets an error, any other kind returns
  \<open>FALSE\<close> without one).
\<close>

definition NameValue_tag :: "DWORD \<Rightarrow> error option + BYTE" where
  "NameValue_tag t =
     (if t = CERT_RDN_NUMERIC_STRING then Inr ASN_NUMERICSTRING
      else if t = CERT_RDN_PRINTABLE_STRING then Inr ASN_PRINTABLESTRING
      else if t = CERT_RDN_IA5_STRING then Inr ASN_IA5STRING
      else if t = CERT_RDN_ANY_TYPE then Inl (Some E_INVALIDARG)
      else Inl None)"

definition CRYPT_AsnEncodeNameValue ::
  "'a CERT_NAME_VALUE_scheme \<Rightarrow> mem option \<Rightarrow> DWORD \<Rightarrow> enc_result" where
  "CRYPT_AsnEncodeNameValue val pbEncoded cb =
     (case NameValue_tag (dwValueType val) of
        Inl e \<Rightarrow> enc_fail e cb
      | Inr tag \<Rightarrow>
          let encodedLen = cbData (Value val);
              lenBytes = EncodeLen_bytesNeeded encodedLen;
              bytesNeeded = 1 + lenBytes + encodedLen
          in if pbEncoded = None then enc_ok bytesNeeded []
             else if cb < bytesNeeded then enc_fail (Some ERROR_MORE_DATA) bytesNeeded
             else enc_ok bytesNeeded
                    ([tag]
                     @ written (CRYPT_EncodeLen encodedLen pbEncoded lenBytes)
                     @ bytes_from (pbData (Value val)) 0 (unat (cbData (Value val)))))"

text \<open>
  \<open>CRYPT_AsnEncodeRdnAttr\<close>. The two sizing calls get the address of the local
  \<open>size\<close>, which they only write. In the second phase the object identifier is encoded
  at \<open>pbEncoded + 1 + lenBytes\<close> and the value behind it; the bytes stored so far are
  kept when a child fails.
\<close>

definition CRYPT_AsnEncodeRdnAttr :: "CERT_RDN_ATTR \<Rightarrow> mem option \<Rightarrow> DWORD \<Rightarrow> enc_result" where
  "CRYPT_AsnEncodeRdnAttr attr pbEncoded cb =
     (let oidSize = CRYPT_AsnEncodeOid (pszObjId attr) None 0
      in if \<not> ret oidSize then enc_fail (last_error oidSize) cb
         else
           let valueSize = CRYPT_AsnEncodeNameValue attr None 0
           in if \<not> ret valueSize then enc_fail (last_error valueSize) cb
              else
                let contentBytes = size_cell oidSize + size_cell valueSize;
                    lenBytes = EncodeLen_bytesNeeded contentBytes;
                    bytesNeeded = contentBytes + (1 + lenBytes)
                in (case pbEncoded of
                     None \<Rightarrow> enc_ok bytesNeeded []
                   | Some m \<Rightarrow>
                       if cb < bytesNeeded then enc_fail (Some ERROR_MORE_DATA) bytesNeeded
                       else
                         let header =
                               [ASN_CONSTRUCTOR OR ASN_SEQUENCE]
                               @ written (CRYPT_EncodeLen (bytesNeeded - lenBytes - 1)
                                            (Some (advance m 1)) lenBytes);
                             oid = CRYPT_AsnEncodeOid (pszObjId attr)
                                     (Some (advance m (1 + unat lenBytes)))
                                     (bytesNeeded - 1 - lenBytes)
                         in if \<not> ret oid
                            then (enc_fail (last_error oid) bytesNeeded)\<lparr>written := header\<rparr>
                            else
                              let val = CRYPT_AsnEncodeNameValue attr
                                          (Some (advance m (1 + unat lenBytes + unat (size_cell oid))))
                                          (bytesNeeded - 1 - lenBytes - size_cell oid)
                              in \<lparr>ret = ret val, last_error = last_error val,
                                  size_cell = bytesNeeded,
                                  written = header @ written oid @ written val,
                                  allocated = None\<rparr>))"

text \<open>
  \<open>memcmp\<close> over the first \<open>n\<close> bytes: negative, zero or positive. \<open>BLOBComp\<close>
  compares the common prefix of two blobs and then takes the difference of the two
  \<open>DWORD\<close> counts, converted to \<open>int\<close>.
\<close>

fun cmp_bytes :: "BYTE list \<Rightarrow> BYTE list \<Rightarrow> int" where
  "cmp_bytes (x # xs) (y # ys) =
     (if x < y then - 1 else if y < x then 1 else cmp_bytes xs ys)"
| "cmp_bytes _ _ = 0"

definition memcmp :: "mem \<Rightarrow> mem \<Rightarrow> nat \<Rightarrow> int" where
  "memcmp a b n = cmp_bytes (bytes_from a 0 n) (bytes_from b 0 n)"

definition BLOBComp :: "CRYPT_DATA_BLOB \<Rightarrow> CRYPT_DATA_BLOB \<Rightarrow> int" where
  "BLOBComp a b =
     (let r = memcmp (pbData a) (pbData b) (unat (min (cbData a) (cbData b)))
      in if r = 0 then sint (cbData a - cbData b) else r)"

text \<open>
  \<open>qsort\<close> belongs to the C library: the array sorted by the comparison function,
  here by insertion.
\<close>

fun qsort_insert :: "('a \<Rightarrow> 'a \<Rightarrow> int) \<Rightarrow> 'a \<Rightarrow> 'a list \<Rightarrow> 'a list" where
  "qsort_insert cmp x [] = [x]"
| "qsort_insert cmp x (y # ys) =
     (if cmp x y \<le> 0 then x # y # ys else y # qsort_insert cmp x ys)"

definition qsort :: "('a \<Rightarrow> 'a \<Rightarrow> int) \<Rightarrow> 'a list \<Rightarrow> 'a list" where
  "qsort cmp xs = foldr (qsort_insert cmp) xs []"

text \<open>
  The process heap as the RDN encoder uses it: whether the zeroed array of blobs is
  allocated, and the memory \<open>HeapAlloc\<close> returns for the scratch buffer of the attribute
  with index \<open>i\<close> (\<open>None\<close> when it fails). The scratch buffers are allocated without
  \<open>HEAP_ZERO_MEMORY\<close>: their contents are whatever the heap holds.
\<close>

record process_heap =
  HeapAlloc_blobs :: "DWORD \<Rightarrow> bool"
  HeapAlloc_scratch :: "nat \<Rightarrow> DWORD \<Rightarrow> mem option"

text \<open>A memory after bytes were stored at its start.\<close>

definition store :: "mem \<Rightarrow> BYTE list \<Rightarrow> mem" where
  "store m bs = (\<lambda>i. if i < length bs then bs ! i else m i)"

record CERT_RDN =
  cRDNAttr :: DWORD
  rgRDNAttr :: "CERT_RDN_ATTR list option"

text \<open>
  The sizing loop of \<open>CRYPT_AsnEncodeRdn\<close>: the \<open>cbData\<close> of every blob, or the error
  of the first attribute that fails.
\<close>

fun rdn_sizes :: "CERT_RDN_ATTR list \<Rightarrow> error option + DWORD list" where
  "rdn_sizes [] = Inr []"
| "rdn_sizes (a # as) =
     (let r = CRYPT_AsnEncodeRdnAttr a None 0
      in if \<not> ret r then Inl (last_error r)
         else (case rdn_sizes as of
                 Inl e \<Rightarrow> Inl e
               | Inr ns \<Rightarrow> Inr (size_cell r # ns)))"

text \<open>
  The encoding loop: every attribute is encoded into a scratch buffer of its own,
  \<open>blobs[i].cbData\<close> is the capacity and then the size.
\<close>

fun rdn_blobs ::
  "process_heap \<Rightarrow> nat \<Rightarrow> (CERT_RDN_ATTR \<times> DWORD) list \<Rightarrow> error option + CRYPT_DATA_BLOB list"
  where
  "rdn_blobs heap i [] = Inr []"
| "rdn_blobs heap i ((a, n) # rest) =
     (case HeapAlloc_scratch heap i n of
        None \<Rightarrow> Inl None
      | Some m \<Rightarrow>
          let r = CRYPT_AsnEncodeRdnAttr a (Some m) n
          in if \<not> ret r then Inl (last_error r)
             else (case rdn_blobs heap (Suc i) rest of
                     Inl e \<Rightarrow> Inl e
                   | Inr bs \<Rightarrow>
                       Inr (\<lparr>cbData = size_cell r, pbData = store m (written r)\<rparr> # bs)))"

definition blob_bytes :: "CRYPT_DATA_BLOB \<Rightarrow> BYTE list" where
  "blob_bytes b = bytes_from (pbData b) 0 (unat (cbData b))"

text \<open>
  \<open>CRYPT_AsnEncodeRdn\<close>. The array \<open>rgRDNAttr\<close> is taken to hold \<open>cRDNAttr\<close>
  entries. The output buffer is written only after every attribute is encoded and the
  blobs are sorted.
\<close>

definition CRYPT_AsnEncodeRdn ::
  "process_heap \<Rightarrow> CERT_RDN \<Rightarrow> mem option \<Rightarrow> DWORD \<Rightarrow> enc_result" where
  "CRYPT_AsnEncodeRdn heap rdn pbEncoded cb =
     (if cRDNAttr rdn \<noteq> 0 \<and> rgRDNAttr rdn = None
      then enc_fail (Some STATUS_ACCESS_VIOLATION) cb
      else if cRDNAttr rdn \<noteq> 0 \<and> \<not> HeapAlloc_blobs heap (cRDNAttr rdn * 8)
      then enc_fail None cb
      else
        let attrs = (case rgRDNAttr rdn of
                       None \<Rightarrow> []
                     | Some arr \<Rightarrow> take (unat (cRDNAttr rdn)) arr)
        in (case rdn_sizes attrs of
              Inl e \<Rightarrow> enc_fail e cb
            | Inr sizes \<Rightarrow>
                (let contentBytes = foldl (+) 0 sizes;
                     lenBytes = EncodeLen_bytesNeeded contentBytes;
                     bytesNeeded = contentBytes + (1 + lenBytes)
                 in if pbEncoded = None then enc_ok bytesNeeded []
                    else if cb < bytesNeeded then enc_fail (Some ERROR_MORE_DATA) bytesNeeded
                    else (case rdn_blobs heap 0 (zip attrs sizes) of
                            Inl e \<Rightarrow> enc_fail e bytesNeeded
                          | Inr blobs \<Rightarrow>
                              enc_ok bytesNeeded
                                ([ASN_CONSTRUCTOR OR ASN_SETOF]
                                 @ written (CRYPT_EncodeLen (bytesNeeded - lenBytes - 1)
                                              pbEncoded lenBytes)
                                 @ concat (map blob_bytes (qsort BLOBComp blobs)))))))"

section \<open>Shared decode helpers\<close>

text \<open>
  What a decoder leaves behind: the \<open>BOOL\<close> it returns, the error it set, the value of
  the size cell \<open>*pcbStructInfo\<close>, the value it stored in the output area (\<open>None\<close> when
  it stored none) and the size of the area it allocated under
  \<open>CRYPT_DECODE_ALLOC_FLAG\<close>.
\<close>

record 'a dec_result =
  dec_ret :: bool
  dec_error :: "error option"
  dec_size :: DWORD
  decoded :: "'a option"
  dec_allocated :: "DWORD option"

definition dec_fail :: "error option \<Rightarrow> DWORD \<Rightarrow> 'a dec_result" where
  "dec_fail e cb =
     \<lparr>dec_ret = False, dec_error = e, dec_size = cb, decoded = None, dec_allocated = None\<rparr>"

definition dec_ok :: "DWORD \<Rightarrow> 'a option \<Rightarrow> 'a dec_result" where
  "dec_ok cb v =
     \<lparr>dec_ret = True, dec_error = None, dec_size = cb, decoded = v, dec_allocated = None\<rparr>"

text \<open>\<open>GET_LEN_BYTES\<close>: the number of length bytes, the leading one counted.\<close>

definition GET_LEN_BYTES :: "BYTE \<Rightarrow> BYTE" where
  "GET_LEN_BYTES b = (if b \<le> 0x7f then 1 else 1 + (b AND 0x7f))"

text \<open>
  The loop \<open>while (lenLen--)\<close> of \<open>CRYPT_GetLen\<close>: it reads one byte for every value
  of the counter that is not zero, and the decrement of the last test leaves the
  \<open>BYTE\<close> counter at \<open>0 - 1\<close>. The result is \<open>out\<close> and the counter behind the loop.
\<close>

function GetLen_loop :: "mem \<Rightarrow> nat \<Rightarrow> BYTE \<Rightarrow> DWORD \<Rightarrow> DWORD \<times> BYTE" where
  "GetLen_loop m p lenLen out =
     (if lenLen \<noteq> 0
      then GetLen_loop m (Suc p) (lenLen - 1) (push_bit 8 out OR ucast (m p))
      else (out, lenLen - 1))"
  by pat_completeness auto
termination
  by (relation "measure (\<lambda>(m, p, lenLen, out). unat lenLen)") (auto intro: measure_unat)

text \<open>
  \<open>CRYPT_GetLen\<close>: the length of the contents of the element at \<open>pbEncoded\<close>
  (\<open>pbEncoded[0]\<close> is the tag), or the error.
\<close>

definition CRYPT_GetLen :: "mem \<Rightarrow> DWORD \<Rightarrow> error + DWORD" where
  "CRYPT_GetLen pbEncoded cbEncoded =
     (if cbEncoded \<le> 1 then Inl CRYPT_E_ASN1_EOD
      else if pbEncoded 1 \<le> 0x7f then Inr (ucast (pbEncoded 1))
      else
        let lenLen = GET_LEN_BYTES (pbEncoded 1)
        in if unat lenLen > 4 then Inl CRYPT_E_ASN1_LARGE
           else if ucast lenLen + 2 > cbEncoded then Inl CRYPT_E_ASN1_CORRUPT
           else
             let (out, lenLen') = GetLen_loop pbEncoded 2 lenLen 0
             in if out + ucast lenLen' + 1 > cbEncoded then Inl CRYPT_E_ASN1_EOD
                else Inr out)"

definition CRYPT_DecodeEnsureSpace ::
  "kernel32 \<Rightarrow> DWORD \<Rightarrow> CRYPT_PARA option \<Rightarrow> DWORD \<Rightarrow> DWORD \<Rightarrow> 'a dec_result" where
  "CRYPT_DecodeEnsureSpace os dwFlags pDecodePara cb bytesNeeded =
     (if dwFlags AND CRYPT_DECODE_ALLOC_FLAG \<noteq> 0 then
        (if \<not> do_alloc os pDecodePara bytesNeeded then dec_fail None cb
         else (dec_ok bytesNeeded None)\<lparr>dec_allocated := Some bytesNeeded\<rparr>)
      else if cb < bytesNeeded then dec_fail (Some ERROR_MORE_DATA) bytesNeeded
      else dec_ok cb None)"

section \<open>Integer decoders\<close>

text \<open>The loop \<open>val <<= 8; val |= pbEncoded[2 + i]\<close> over the content bytes.\<close>

definition shift_in :: "32 word \<Rightarrow> BYTE list \<Rightarrow> 32 word" where
  "shift_in val bs = foldl (\<lambda>v b. push_bit 8 v OR ucast b) val bs"

text \<open>
  \<open>CRYPT_AsnDecodeInt\<close>. \<open>pbEncoded\<close> is the memory behind the input pointer,
  \<open>cbEncoded\<close> the count given with it, \<open>pvStructInfo\<close> the output pointer and \<open>cb\<close>
  the value of \<open>*pcbStructInfo\<close>. The decoded value is the \<open>int\<close> stored in the output
  area.
\<close>

definition CRYPT_AsnDecodeInt ::
  "kernel32 \<Rightarrow> mem option \<Rightarrow> DWORD \<Rightarrow> DWORD \<Rightarrow> CRYPT_PARA option \<Rightarrow> mem option \<Rightarrow> DWORD
     \<Rightarrow> C_int dec_result" where
  "CRYPT_AsnDecodeInt os pbEncoded cbEncoded dwFlags pDecodePara pvStructInfo cb =
     (case pbEncoded of
        None \<Rightarrow> dec_fail (Some CRYPT_E_ASN1_EOD) cb
      | Some m \<Rightarrow>
          if cbEncoded = 0 then dec_fail (Some CRYPT_E_ASN1_EOD) cb
          else if pvStructInfo = None then dec_ok 4 None
          else if m 0 \<noteq> ASN_INTEGER then dec_fail (Some CRYPT_E_ASN1_BADTAG) cb
          else if cbEncoded \<le> 1 then dec_fail (Some CRYPT_E_ASN1_EOD) cb
          else if m 1 = 0 then dec_fail (Some CRYPT_E_ASN1_CORRUPT) cb
          else if unat (m 1) > 4 then dec_fail (Some CRYPT_E_ASN1_LARGE) cb
          else
            let val = shift_in (if m 2 AND 0x80 \<noteq> 0 then - 1 else 0)
                        (bytes_from m 2 (unat (m 1)));
                space = CRYPT_DecodeEnsureSpace os dwFlags pDecodePara cb 4
            in if \<not> dec_ret space then space
               else space\<lparr>decoded := Some val\<rparr>)"

text \<open>
  \<open>CRYPT_AsnDecodeEnumerated\<close>: as \<open>CRYPT_AsnDecodeInt\<close>, with an
  \<open>unsigned int\<close> that starts at 0 and one more content byte allowed.
\<close>

definition CRYPT_AsnDecodeEnumerated ::
  "kernel32 \<Rightarrow> mem option \<Rightarrow> DWORD \<Rightarrow> DWORD \<Rightarrow> CRYPT_PARA option \<Rightarrow> mem option \<Rightarrow> DWORD
     \<Rightarrow> DWORD dec_result" where
  "CRYPT_AsnDecodeEnumerated os pbEncoded cbEncoded dwFlags pDecodePara pvStructInfo cb =
     (case pbEncoded of
        None \<Rightarrow> dec_fail (Some CRYPT_E_ASN1_EOD) cb
      | Some m \<Rightarrow>
          if cbEncoded = 0 then dec_fail (Some CRYPT_E_ASN1_EOD) cb
          else if pvStructInfo = None then dec_ok 4 None
          else if m 0 \<noteq> ASN_ENUMERATED then dec_fail (Some CRYPT_E_ASN1_BADTAG) cb
          else if cbEncoded \<le> 1 then dec_fail (Some CRYPT_E_ASN1_EOD) cb
          else if m 1 = 0 then dec_fail (Some CRYPT_E_ASN1_CORRUPT) cb
          else if unat (m 1) > 4 + 1 then dec_fail (Some CRYPT_E_ASN1_LARGE) cb
          else
            let val = shift_in 0 (bytes_from m 2 (unat (m 1)));
                space = CRYPT_DecodeEnsureSpace os dwFlags pDecodePara cb 4
            in if \<not> dec_ret space then space
               else space\<lparr>decoded := Some val\<rparr>)"

section \<open>Time decoders\<close>

definition isdigit :: "BYTE \<Rightarrow> bool" where
  "isdigit b = (0x30 \<le> b \<and> b \<le> 0x39)"

text \<open>
  The macro \<open>CRYPT_TIME_GET_DIGITS\<close>: up to \<open>numDigits\<close> digits are read while
  \<open>len\<close> is not zero. The state is the offset of the read pointer, \<open>len\<close> and the
  word built so far (the macro starts it at 0); \<open>None\<close> is the \<open>return FALSE\<close> with
  \<open>CRYPT_E_ASN1_CORRUPT\<close> at a byte that is not a digit.
\<close>

fun TIME_GET_DIGITS ::
  "mem \<Rightarrow> nat \<Rightarrow> 'a::len word \<Rightarrow> nat \<Rightarrow> WORD \<Rightarrow> (nat \<times> 'a word \<times> WORD) option" where
  "TIME_GET_DIGITS m p len 0 w = Some (p, len, w)"
| "TIME_GET_DIGITS m p len (Suc n) w =
     (if len = 0 then Some (p, len, w)
      else if \<not> isdigit (m p) then None
      else TIME_GET_DIGITS m (Suc p) (len - 1) n (w * 10 + (ucast (m p) - 0x30)))"

text \<open>
  \<open>CRYPT_AsnDecodeTimeZone\<close>: the system time with the offset applied, \<open>None\<close> for
  \<open>CRYPT_E_ASN1_CORRUPT\<close>.
\<close>

definition apply_zone :: "BYTE \<Rightarrow> WORD \<Rightarrow> WORD \<Rightarrow> SYSTEMTIME \<Rightarrow> SYSTEMTIME" where
  "apply_zone sign hours minutes sysTime =
     (if sign = 0x2b
      then sysTime\<lparr>wHour := wHour sysTime + hours, wMinute := wMinute sysTime + minutes\<rparr>
      else
        let t1 = (if hours > wHour sysTime
                  then sysTime\<lparr>wDay := wDay sysTime - 1,
                                wHour := 24 - (hours - wHour sysTime)\<rparr>
                  else sysTime\<lparr>wHour := wHour sysTime - hours\<rparr>)
        in if minutes > wMinute t1
           then t1\<lparr>wHour := wHour t1 - 1, wMinute := 60 - (minutes - wMinute t1)\<rparr>
           else t1\<lparr>wMinute := wMinute t1 - minutes\<rparr>)"

definition CRYPT_AsnDecodeTimeZone :: "mem \<Rightarrow> nat \<Rightarrow> DWORD \<Rightarrow> SYSTEMTIME \<Rightarrow> SYSTEMTIME option"
  where
  "CRYPT_AsnDecodeTimeZone m p len sysTime =
     (if len \<ge> 3 \<and> (m p = 0x2b \<or> m p = 0x2d)
      then
        (case TIME_GET_DIGITS m (Suc p) (len - 1) 2 0 of
           None \<Rightarrow> None
         | Some (p1, len1, hours) \<Rightarrow>
             if hours \<ge> 24 then None
             else if len1 \<ge> 2
             then (case TIME_GET_DIGITS m p1 len1 2 0 of
                     None \<Rightarrow> None
                   | Some (p2, len2, minutes) \<Rightarrow>
                       if minutes \<ge> 60 then None
                       else Some (apply_zone (m p) hours minutes sysTime))
             else Some (apply_zone (m p) hours 0 sysTime))
      else Some sysTime)"

definition sysTime0 :: SYSTEMTIME where
  "sysTime0 = \<lparr>wYear = 0, wMonth = 0, wDayOfWeek = 0, wDay = 0, wHour = 0, wMinute = 0,
                wSecond = 0, wMilliseconds = 0\<rparr>"

text \<open>
  The parse of the UTCTime contents behind the checks of tag and length: the fields in
  the order year, month, day, hour, minute, then the optional seconds and the time
  zone. \<open>len\<close> is the \<open>BYTE\<close> read from the length octet.
\<close>

definition UtcTime_seconds :: "mem \<Rightarrow> nat \<Rightarrow> BYTE \<Rightarrow> SYSTEMTIME \<Rightarrow> SYSTEMTIME option" where
  "UtcTime_seconds m p len sysTime =
     (if len > 0
      then
        (case (if len \<ge> 2 \<and> isdigit (m p) \<and> isdigit (m (Suc p))
               then TIME_GET_DIGITS m p len 2 0
               else if isdigit (m p) then TIME_GET_DIGITS m p len 1 0
               else Some (p, len, wSecond sysTime)) of
           None \<Rightarrow> None
         | Some (p1, len1, s) \<Rightarrow>
             CRYPT_AsnDecodeTimeZone m p1 (ucast len1) (sysTime\<lparr>wSecond := s\<rparr>))
      else Some sysTime)"

definition UtcTime_parse :: "mem \<Rightarrow> BYTE \<Rightarrow> SYSTEMTIME option" where
  "UtcTime_parse m len =
     (case TIME_GET_DIGITS m 2 len 2 0 of
        None \<Rightarrow> None
      | Some (p1, len1, y) \<Rightarrow>
     (case TIME_GET_DIGITS m p1 len1 2 0 of
        None \<Rightarrow> None
      | Some (p2, len2, mo) \<Rightarrow>
     (case TIME_GET_DIGITS m p2 len2 2 0 of
        None \<Rightarrow> None
      | Some (p3, len3, d) \<Rightarrow>
     (case TIME_GET_DIGITS m p3 len3 2 0 of
        None \<Rightarrow> None
      | Some (p4, len4, h) \<Rightarrow>
     (case TIME_GET_DIGITS m p4 len4 2 0 of
        None \<Rightarrow> None
      | Some (p5, len5, mi) \<Rightarrow>
          UtcTime_seconds m p5 len5
            (sysTime0\<lparr>wYear := (if y \<ge> 50 then y + 1900 else y + 2000), wMonth := mo,
                       wDay := d, wHour := h, wMinute := mi\<rparr>))))))"

text \<open>
  The end of both time decoders: the space check for a \<open>FILETIME\<close> and the
  conversion, which may fail.
\<close>

definition store_time ::
  "kernel32 \<Rightarrow> timeapi \<Rightarrow> DWORD \<Rightarrow> CRYPT_PARA option \<Rightarrow> DWORD \<Rightarrow> SYSTEMTIME
     \<Rightarrow> FILETIME dec_result" where
  "store_time os tm dwFlags pDecodePara cb sysTime =
     (let space = CRYPT_DecodeEnsureSpace os dwFlags pDecodePara cb 8
      in if \<not> dec_ret space then space
         else (case SystemTimeToFileTime tm sysTime of
                 None \<Rightarrow> space\<lparr>dec_ret := False\<rparr>
               | Some ft \<Rightarrow> space\<lparr>decoded := Some ft\<rparr>))"

definition MIN_ENCODED_TIME_LENGTH :: BYTE where
  "MIN_ENCODED_TIME_LENGTH = 10"

definition CRYPT_AsnDecodeUtcTime ::
  "kernel32 \<Rightarrow> timeapi \<Rightarrow> mem option \<Rightarrow> DWORD \<Rightarrow> DWORD \<Rightarrow> CRYPT_PARA option \<Rightarrow> mem option
     \<Rightarrow> DWORD \<Rightarrow> FILETIME dec_result" where
  "CRYPT_AsnDecodeUtcTime os tm pbEncoded cbEncoded dwFlags pDecodePara pvStructInfo cb =
     (case pbEncoded of
        None \<Rightarrow> dec_fail (Some CRYPT_E_ASN1_EOD) cb
      | Some m \<Rightarrow>
          if cbEncoded = 0 then dec_fail (Some CRYPT_E_ASN1_EOD) cb
          else if pvStructInfo = None then dec_ok 8 None
          else if m 0 \<noteq> ASN_UTCTIME then dec_fail (Some CRYPT_E_ASN1_BADTAG) cb
          else if cbEncoded \<le> 1 then dec_fail (Some CRYPT_E_ASN1_EOD) cb
          else if m 1 > 0x7f then dec_fail (Some CRYPT_E_ASN1_CORRUPT) cb
          else if m 1 < MIN_ENCODED_TIME_LENGTH then dec_fail (Some CRYPT_E_ASN1_CORRUPT) cb
          else (case UtcTime_parse m (m 1) of
                  None \<Rightarrow> dec_fail (Some CRYPT_E_ASN1_CORRUPT) cb
                | Some sysTime \<Rightarrow> store_time os tm dwFlags pDecodePara cb sysTime))"

text \<open>
  The parse of the GeneralizedTime contents: a year of four digits, month, day and
  hour; then, while bytes are left, minutes, seconds and a fraction of up to three
  digits behind a dot or a comma, and the time zone.
\<close>

definition GeneralizedTime_fraction ::
  "mem \<Rightarrow> nat \<Rightarrow> BYTE \<Rightarrow> SYSTEMTIME \<Rightarrow> SYSTEMTIME option" where
  "GeneralizedTime_fraction m p len sysTime =
     (case (if len > 0 \<and> (m p = 0x2e \<or> m p = 0x2c)
            then TIME_GET_DIGITS m (Suc p) (len - 1) (unat (min (len - 1) 3)) 0
            else Some (p, len, wMilliseconds sysTime)) of
        None \<Rightarrow> None
      | Some (p1, len1, ms) \<Rightarrow>
          CRYPT_AsnDecodeTimeZone m p1 (ucast len1) (sysTime\<lparr>wMilliseconds := ms\<rparr>))"

definition GeneralizedTime_rest ::
  "mem \<Rightarrow> nat \<Rightarrow> BYTE \<Rightarrow> SYSTEMTIME \<Rightarrow> SYSTEMTIME option" where
  "GeneralizedTime_rest m p len sysTime =
     (if len > 0
      then
        (case TIME_GET_DIGITS m p len 2 0 of
           None \<Rightarrow> None
         | Some (p1, len1, mi) \<Rightarrow>
             (case (if len1 > 0 then TIME_GET_DIGITS m p1 len1 2 0
                    else Some (p1, len1, wSecond sysTime)) of
                None \<Rightarrow> None
              | Some (p2, len2, s) \<Rightarrow>
                  GeneralizedTime_fraction m p2 len2 (sysTime\<lparr>wMinute := mi, wSecond := s\<rparr>)))
      else Some sysTime)"

definition GeneralizedTime_parse :: "mem \<Rightarrow> BYTE \<Rightarrow> SYSTEMTIME option" where
  "GeneralizedTime_parse m len =
     (case TIME_GET_DIGITS m 2 len 4 0 of
        None \<Rightarrow> None
      | Some (p1, len1, y) \<Rightarrow>
     (case TIME_GET_DIGITS m p1 len1 2 0 of
        None \<Rightarrow> None
      | Some (p2, len2, mo) \<Rightarrow>
     (case TIME_GET_DIGITS m p2 len2 2 0 of
        None \<Rightarrow> None
      | Some (p3, len3, d) \<Rightarrow>
     (case TIME_GET_DIGITS m p3 len3 2 0 of
        None \<Rightarrow> None
      | Some (p4, len4, h) \<Rightarrow>
          GeneralizedTime_rest m p4 len4
            (sysTime0\<lparr>wYear := y, wMonth := mo, wDay := d, wHour := h\<rparr>)))))"

definition CRYPT_AsnDecodeGeneralizedTime ::
  "kernel32 \<Rightarrow> timeapi \<Rightarrow> mem option \<Rightarrow> DWORD \<Rightarrow> DWORD \<Rightarrow> CRYPT_PARA option \<Rightarrow> mem option
     \<Rightarrow> DWORD \<Rightarrow> FILETIME dec_result" where
  "CRYPT_AsnDecodeGeneralizedTime os tm pbEncoded cbEncoded dwFlags pDecodePara pvStructInfo cb =
     (case pbEncoded of
        None \<Rightarrow> dec_fail (Some CRYPT_E_ASN1_EOD) cb
      | Some m \<Rightarrow>
          if cbEncoded = 0 then dec_fail (Some CRYPT_E_ASN1_EOD) cb
          else if pvStructInfo = None then dec_ok 8 None
          else if m 0 \<noteq> ASN_GENERALTIME then dec_fail (Some CRYPT_E_ASN1_BADTAG) cb
          else if cbEncoded \<le> 1 then dec_fail (Some CRYPT_E_ASN1_EOD) cb
          else if m 1 > 0x7f then dec_fail (Some CRYPT_E_ASN1_CORRUPT) cb
          else if m 1 < MIN_ENCODED_TIME_LENGTH then dec_fail (Some CRYPT_E_ASN1_CORRUPT) cb
          else (case GeneralizedTime_parse m (m 1) of
                  None \<Rightarrow> dec_fail (Some CRYPT_E_ASN1_CORRUPT) cb
                | Some sysTime \<Rightarrow> store_time os tm dwFlags pDecodePara cb sysTime))"

definition CRYPT_AsnDecodeChoiceOfTime ::
  "kernel32 \<Rightarrow> timeapi \<Rightarrow> mem option \<Rightarrow> DWORD \<Rightarrow> DWORD \<Rightarrow> CRYPT_PARA option \<Rightarrow> mem option
     \<Rightarrow> DWORD \<Rightarrow> FILETIME dec_result" where
  "CRYPT_AsnDecodeChoiceOfTime os tm pbEncoded cbEncoded dwFlags pDecodePara pvStructInfo cb =
     (case pbEncoded of
        None \<Rightarrow> dec_fail (Some CRYPT_E_ASN1_EOD) cb
      | Some m \<Rightarrow>
          if cbEncoded = 0 then dec_fail (Some CRYPT_E_ASN1_EOD) cb
          else if pvStructInfo = None then dec_ok 8 None
          else if m 0 = ASN_UTCTIME
          then CRYPT_AsnDecodeUtcTime os tm pbEncoded cbEncoded dwFlags pDecodePara
                 pvStructInfo cb
          else if m 0 = ASN_GENERALTIME
          then CRYPT_AsnDecodeGeneralizedTime os tm pbEncoded cbEncoded dwFlags pDecodePara
                 pvStructInfo cb
          else dec_fail (Some CRYPT_E_ASN1_BADTAG) cb)"

section \<open>Registration of plug-in functions\<close>

text \<open>
  An \<open>LPCSTR\<close> that names a structure is either a small integer (its high word is
  zero) or the address of a string; the null pointer is the integer 0.
\<close>

datatype LPCSTR = IntResource WORD | StringPtr string

definition HIWORD_is_zero :: "LPCSTR \<Rightarrow> bool" where
  "HIWORD_is_zero p = (case p of IntResource _ \<Rightarrow> True | StringPtr _ \<Rightarrow> False)"

definition is_null :: "LPCSTR \<Rightarrow> bool" where
  "is_null p = (p = IntResource 0)"

text \<open>
  \<open>CRYPT_GetKeyName\<close>: the key of the registry that belongs to an encoding type, a
  function name and a structure: the path \<open>Software\<close>, \<open>Microsoft\<close>,
  \<open>Cryptography\<close>, \<open>OID\<close>, \<open>EncodingType %ld\<close>, the function name and the
  structure, separated by backslashes. A structure given by number is printed as \<open>#\<close> and the number into a buffer of 7 bytes; \<open>%ld\<close> prints the
  encoding type as a signed number. The key is built in a buffer of
  \<open>sizeof(szEncodingTypeFmt) + strlen(pszFuncName) + strlen(oid)\<close> bytes from the heap,
  and the result is \<open>None\<close> when the heap gives none. (The buffer has room for seven
  characters of the encoding type; a longer number overruns it, which the model does
  not show.)
\<close>

definition backslash :: char where
  "backslash = CHR 0x5C"

definition szEncodingTypeFmt_size :: nat where
  "szEncodingTypeFmt_size = 59"

definition oid_text :: "LPCSTR \<Rightarrow> string" where
  "oid_text pszOID =
     (case pszOID of
        IntResource n \<Rightarrow> take 6 (CHR ''#'' # fmt_0d 0 (sint (ucast n :: C_int)))
      | StringPtr oid \<Rightarrow> oid)"

definition CRYPT_GetKeyName :: "(nat \<Rightarrow> bool) \<Rightarrow> DWORD \<Rightarrow> string \<Rightarrow> LPCSTR \<Rightarrow> string option"
  where
  "CRYPT_GetKeyName HeapAlloc dwEncodingType pszFuncName pszOID =
     (if HeapAlloc (szEncodingTypeFmt_size + length pszFuncName + length (oid_text pszOID))
      then Some (''Software'' @ [backslash] @ ''Microsoft'' @ [backslash] @ ''Cryptography''
                 @ [backslash] @ ''OID'' @ [backslash] @ ''EncodingType ''
                 @ fmt_0d 0 (sint dwEncodingType)
                 @ [backslash] @ pszFuncName @ [backslash] @ oid_text pszOID)
      else None)"

text \<open>
  The registry store is a capability of the system: a map from key names to the named
  values of the key. Whether a key can be created and whether the heap gives memory for
  the key name are parameters. \<open>CERT_ENCODING_TYPE_MASK\<close> is the constant of
  \<open>wincrypt.h\<close>.
\<close>

datatype reg_value = REG_SZ string

type_synonym registry = "string \<rightharpoonup> (string \<rightharpoonup> reg_value)"

record advapi32 =
  RegCreateKeyA_ok :: "string \<Rightarrow> bool"
  HeapAlloc_ok :: "nat \<Rightarrow> bool"

record reg_result =
  reg_ret :: bool
  reg_error :: "error option"
  reg_store :: registry

definition CERT_ENCODING_TYPE_MASK :: DWORD where "CERT_ENCODING_TYPE_MASK = 0x0000ffff"
definition CMSG_ENCODING_TYPE_MASK :: DWORD where "CMSG_ENCODING_TYPE_MASK = 0xffff0000"
definition X509_ASN_ENCODING :: DWORD where "X509_ASN_ENCODING = 0x00000001"
definition PKCS_7_ASN_ENCODING :: DWORD where "PKCS_7_ASN_ENCODING = 0x00010000"

definition GET_CERT_ENCODING_TYPE :: "DWORD \<Rightarrow> DWORD" where
  "GET_CERT_ENCODING_TYPE x = (x AND CERT_ENCODING_TYPE_MASK)"

definition RegSetValueEx :: "registry \<Rightarrow> string \<Rightarrow> string \<Rightarrow> reg_value \<Rightarrow> registry" where
  "RegSetValueEx reg key name v =
     reg(key \<mapsto> (case reg key of None \<Rightarrow> Map.empty | Some vs \<Rightarrow> vs)(name \<mapsto> v))"

definition RegCreateKey :: "registry \<Rightarrow> string \<Rightarrow> registry" where
  "RegCreateKey reg key = (case reg key of None \<Rightarrow> reg(key \<mapsto> Map.empty) | Some _ \<Rightarrow> reg)"

text \<open>
  \<open>CryptRegisterOIDFunction\<close>. \<open>pszFuncName\<close>, \<open>pwszDll\<close> and
  \<open>pszOverrideFuncName\<close> are \<open>None\<close> for the null pointer. The checks stand in the
  order of the source.
\<close>

definition CryptRegisterOIDFunction ::
  "advapi32 \<Rightarrow> registry \<Rightarrow> DWORD \<Rightarrow> string option \<Rightarrow> LPCSTR \<Rightarrow> string option \<Rightarrow> string option
     \<Rightarrow> reg_result" where
  "CryptRegisterOIDFunction adv reg dwEncodingType pszFuncName pszOID pwszDll
       pszOverrideFuncName =
     (if GET_CERT_ENCODING_TYPE dwEncodingType = 0
      then \<lparr>reg_ret = True, reg_error = None, reg_store = reg\<rparr>
      else (case pwszDll of
        None \<Rightarrow> \<lparr>reg_ret = True, reg_error = None, reg_store = reg\<rparr>
      | Some dll \<Rightarrow>
          (case pszFuncName of
             None \<Rightarrow>
               \<lparr>reg_ret = False, reg_error = Some ERROR_INVALID_PARAMETER, reg_store = reg\<rparr>
           | Some func \<Rightarrow>
               if is_null pszOID
               then \<lparr>reg_ret = False, reg_error = Some ERROR_INVALID_PARAMETER,
                     reg_store = reg\<rparr>
               else
                 (case CRYPT_GetKeyName (HeapAlloc_ok adv) dwEncodingType func pszOID of
                    None \<Rightarrow> \<lparr>reg_ret = False, reg_error = None, reg_store = reg\<rparr>
                  | Some szKey \<Rightarrow>
                      if \<not> RegCreateKeyA_ok adv szKey
                      then \<lparr>reg_ret = False, reg_error = None, reg_store = reg\<rparr>
                      else
                        let created = RegCreateKey reg szKey;
                            named = (case pszOverrideFuncName of
                                       None \<Rightarrow> created
                                     | Some f \<Rightarrow>
                                         RegSetValueEx created szKey ''FuncName'' (REG_SZ f))
                        in \<lparr>reg_ret = True, reg_error = None,
                            reg_store = RegSetValueEx named szKey ''Dll'' (REG_SZ dll)\<rparr>))))"

section \<open>The public encode and decode functions\<close>

text \<open>
  The structure identifiers and object identifiers of \<open>wincrypt.h\<close> that the two
  \<open>switch\<close> statements name.
\<close>

definition X509_NAME :: WORD where "X509_NAME = 7"
definition X509_KEY_USAGE :: WORD where "X509_KEY_USAGE = 14"
definition PKCS_UTC_TIME :: WORD where "PKCS_UTC_TIME = 17"
definition X509_OCTET_STRING :: WORD where "X509_OCTET_STRING = 25"
definition X509_BITS :: WORD where "X509_BITS = 26"
definition X509_INTEGER :: WORD where "X509_INTEGER = 27"
definition X509_MULTI_BYTE_INTEGER :: WORD where "X509_MULTI_BYTE_INTEGER = 28"
definition X509_ENUMERATED :: WORD where "X509_ENUMERATED = 29"
definition X509_CHOICE_OF_TIME :: WORD where "X509_CHOICE_OF_TIME = 30"
definition X509_MULTI_BYTE_UINT :: WORD where "X509_MULTI_BYTE_UINT = 38"

definition szOID_RSA_signingTime :: string where
  "szOID_RSA_signingTime = ''1.2.840.113549.1.9.5''"
definition szOID_CRL_REASON_CODE :: string where "szOID_CRL_REASON_CODE = ''2.5.29.21''"
definition szOID_KEY_USAGE :: string where "szOID_KEY_USAGE = ''2.5.29.15''"
definition szOID_SUBJECT_KEY_IDENTIFIER :: string where
  "szOID_SUBJECT_KEY_IDENTIFIER = ''2.5.29.14''"

text \<open>
  The codec a structure identifier selects from the built-in table: the same table
  serves encoding and decoding.
\<close>

datatype builtin =
    AsnName | AsnOctets | AsnBits | AsnInt | AsnInteger | AsnUnsignedInteger
  | AsnEnumerated | AsnChoiceOfTime | AsnUtcTime

definition builtin_for :: "LPCSTR \<Rightarrow> builtin option" where
  "builtin_for lpszStructType =
     (case lpszStructType of
        IntResource n \<Rightarrow>
          if n = X509_NAME then Some AsnName
          else if n = X509_OCTET_STRING then Some AsnOctets
          else if n = X509_BITS \<or> n = X509_KEY_USAGE then Some AsnBits
          else if n = X509_INTEGER then Some AsnInt
          else if n = X509_MULTI_BYTE_INTEGER then Some AsnInteger
          else if n = X509_MULTI_BYTE_UINT then Some AsnUnsignedInteger
          else if n = X509_ENUMERATED then Some AsnEnumerated
          else if n = X509_CHOICE_OF_TIME then Some AsnChoiceOfTime
          else if n = PKCS_UTC_TIME then Some AsnUtcTime
          else None
      | StringPtr oid \<Rightarrow>
          if oid = szOID_RSA_signingTime then Some AsnUtcTime
          else if oid = szOID_CRL_REASON_CODE then Some AsnEnumerated
          else if oid = szOID_KEY_USAGE then Some AsnBits
          else if oid = szOID_SUBJECT_KEY_IDENTIFIER then Some AsnOctets
          else None)"

text \<open>
  A function the public functions call through a pointer: a codec of the table, or a
  function \<open>CRYPT_GetFunc\<close> found in a registered module.
\<close>

datatype 'p target = Builtin builtin | Plugin 'p

text \<open>
  The arguments of the four public functions: the encoding type, the structure
  identifier, the flags and the allocation parameters. \<open>pvOut\<close> is the output pointer
  (\<open>pbEncoded\<close>, \<open>pvEncoded\<close> or \<open>pvStructInfo\<close>) and \<open>pcbOut\<close> the pointer to the
  size cell with the value found there, both \<open>None\<close> when null. \<open>input\<close> is the
  structure to encode, or the pointer and count of the bytes to decode.
\<close>

record 'i call_args =
  encodingType :: DWORD
  structType :: LPCSTR
  input :: 'i
  flags :: DWORD
  para :: "CRYPT_PARA option"
  pvOut :: "mem option"
  pcbOut :: "DWORD option"

text \<open>
  What lies outside the file: \<open>CRYPT_GetFunc\<close> asks the registry and the module
  loader for the function registered under a name (\<open>None\<close> when there is none), and
  \<open>invoke\<close> is the call through the function pointer with the arguments given, which
  returns what the called codec returns.
\<close>

record ('p, 'i, 'r) dispatch_env =
  CRYPT_GetFunc :: "DWORD \<Rightarrow> LPCSTR \<Rightarrow> string \<Rightarrow> 'p option"
  invoke :: "'p target \<Rightarrow> 'i call_args \<Rightarrow> 'r"

definition encoding_known :: "DWORD \<Rightarrow> bool" where
  "encoding_known t =
     (\<not> ((t AND CERT_ENCODING_TYPE_MASK) \<noteq> X509_ASN_ENCODING
         \<and> (t AND CMSG_ENCODING_TYPE_MASK) \<noteq> PKCS_7_ASN_ENCODING))"

text \<open>
  The function \<open>CryptEncodeObjectEx\<close> and \<open>CryptDecodeObjectEx\<close> select: the codec
  of the table, else the function registered under \<open>name\<close>.
\<close>

definition select_func ::
  "('p, 'i, 'r) dispatch_env \<Rightarrow> string \<Rightarrow> 'i call_args \<Rightarrow> 'p target option" where
  "select_func env name args =
     (case builtin_for (structType args) of
        Some b \<Rightarrow> Some (Builtin b)
      | None \<Rightarrow>
          map_option Plugin
            (CRYPT_GetFunc env (encodingType args) (structType args) name))"

text \<open>
  The result of a public function is \<open>Inl e\<close> when it returns \<open>FALSE\<close> itself with
  last error \<open>e\<close>, and \<open>Inr r\<close> when it called a function and returns its result
  \<open>r\<close>.
\<close>

definition CryptEncodeObjectEx ::
  "('p, 'i, 'r) dispatch_env \<Rightarrow> 'i call_args \<Rightarrow> error + 'r" where
  "CryptEncodeObjectEx env args =
     (if pvOut args = None \<and> pcbOut args = None then Inl ERROR_INVALID_PARAMETER
      else if \<not> encoding_known (encodingType args) then Inl ERROR_FILE_NOT_FOUND
      else case select_func env ''CryptEncodeObjectEx'' args of
             None \<Rightarrow> Inl ERROR_FILE_NOT_FOUND
           | Some f \<Rightarrow> Inr (invoke env f args))"

definition CryptEncodeObject ::
  "('p, 'i, 'r) dispatch_env \<Rightarrow> 'i call_args \<Rightarrow> error + 'r" where
  "CryptEncodeObject env args =
     (if pvOut args = None \<and> pcbOut args = None then Inl ERROR_INVALID_PARAMETER
      else case CRYPT_GetFunc env (encodingType args) (structType args)
                  ''CryptEncodeObject'' of
             Some p \<Rightarrow> Inr (invoke env (Plugin p) args)
           | None \<Rightarrow> CryptEncodeObjectEx env (args\<lparr>flags := 0, para := None\<rparr>))"

definition CryptDecodeObjectEx ::
  "('p, 'i, 'r) dispatch_env \<Rightarrow> 'i call_args \<Rightarrow> error + 'r" where
  "CryptDecodeObjectEx env args =
     (if pvOut args = None \<and> pcbOut args = None then Inl ERROR_INVALID_PARAMETER
      else if \<not> encoding_known (encodingType args) then Inl ERROR_FILE_NOT_FOUND
      else case select_func env ''CryptDecodeObjectEx'' args of
             None \<Rightarrow> Inl ERROR_FILE_NOT_FOUND
           | Some f \<Rightarrow> Inr (invoke env f args))"

definition CryptDecodeObject ::
  "('p, 'i, 'r) dispatch_env \<Rightarrow> 'i call_args \<Rightarrow> error + 'r" where
  "CryptDecodeObject env args =
     (if pvOut args = None \<and> pcbOut args = None then Inl ERROR_INVALID_PARAMETER
      else case CRYPT_GetFunc env (encodingType args) (structType args)
                  ''CryptDecodeObject'' of
             Some p \<Rightarrow> Inr (invoke env (Plugin p) args)
           | None \<Rightarrow> CryptDecodeObjectEx env (args\<lparr>para := None\<rparr>))"

section \<open>The value of a signed integer in DER, in the words of the specification\<close>

text \<open>
  The content bytes read as a big-endian number, and the same number read as two's
  complement of the width of the content: the value of the content when its first byte
  has the high bit clear (zero extension), that value less \<open>256 ^ length\<close> when it is
  set (sign extension). These two definitions follow the specification, not the
  source; the decoder is compared with them.
\<close>

definition big_endian :: "BYTE list \<Rightarrow> nat" where
  "big_endian bs = foldl (\<lambda>a b. a * 256 + unat b) 0 bs"

fun sign_extended :: "BYTE list \<Rightarrow> int" where
  "sign_extended [] = 0"
| "sign_extended (b # bs) =
     (if b AND 0x80 \<noteq> 0 then int (big_endian (b # bs)) - 256 ^ length (b # bs)
      else int (big_endian (b # bs)))"

section \<open>Lemmas\<close>

lemma shift_or_add:
  fixes x :: "32 word" and b :: BYTE
  shows "push_bit 8 x OR ucast b = x * 256 + ucast b"
proof -
  have "push_bit 8 x AND (ucast b :: 32 word) = 0"
    by (rule bit_eqI) (auto simp: bit_simps dest: bit_imp_le_length)
  then have "push_bit 8 x OR ucast b = push_bit 8 x + ucast b"
    by (simp add: disjunctive_add_eq_or)
  then show ?thesis by (simp add: push_bit_eq_mult)
qed

lemma shift_in_value:
  "shift_in v bs = v * 256 ^ length bs + of_nat (big_endian bs)"
proof (induction bs rule: rev_induct)
  case Nil
  show ?case by (simp add: shift_in_def big_endian_def)
next
  case (snoc b bs)
  have "shift_in v (bs @ [b]) = push_bit 8 (shift_in v bs) OR ucast b"
    by (simp add: shift_in_def)
  also have "\<dots> = shift_in v bs * 256 + ucast b" by (rule shift_or_add)
  also have "\<dots> = v * 256 ^ length (bs @ [b]) + of_nat (big_endian (bs @ [b]))"
    by (simp add: snoc.IH big_endian_def algebra_simps)
  finally show ?case .
qed

lemma byte_range: "0 \<le> uint (b :: BYTE) \<and> uint b < 256"
  using uint_lt2p [of b] by simp

lemma high_bit_uint: "(b :: BYTE) AND 0x80 \<noteq> 0 \<longleftrightarrow> 128 \<le> uint b"
proof -
  have "b AND 0x80 = 0 \<longleftrightarrow> \<not> bit b 7"
    using and_exp_eq_0_iff_not_bit [of b 7] by simp
  also have "bit b 7 \<longleftrightarrow> bit (uint b) 7"
    by (simp add: bit_unsigned_iff)
  also have "bit (uint b) 7 \<longleftrightarrow> odd (uint b div 128)"
    by (simp add: bit_iff_odd)
  also have "odd (uint b div 128) \<longleftrightarrow> 128 \<le> uint b"
  proof
    assume "odd (uint b div 128)"
    then have nz: "uint b div 128 \<noteq> 0" by (metis even_zero)
    show "128 \<le> uint b"
    proof (rule ccontr)
      assume "\<not> 128 \<le> uint b"
      then have "uint b div 128 = 0" by (simp add: div_pos_pos_trivial)
      with nz show False by simp
    qed
  next
    assume "128 \<le> uint b"
    with byte_range [of b] have "uint b div 128 = 1" by simp
    then show "odd (uint b div 128)" by simp
  qed
  finally show ?thesis by simp
qed

lemma big_endian_1: "int (big_endian [a]) = uint a"
  by (simp add: big_endian_def)

lemma big_endian_2: "int (big_endian [a, b]) = uint a * 256 + uint b"
  by (simp add: big_endian_def)

lemma big_endian_3: "int (big_endian [a, b, c]) = (uint a * 256 + uint b) * 256 + uint c"
  by (simp add: big_endian_def)

lemma big_endian_4:
  "int (big_endian [a, b, c, d]) = ((uint a * 256 + uint b) * 256 + uint c) * 256 + uint d"
  by (simp add: big_endian_def)

lemma range_int:
  fixes a b c d :: int
  assumes "0 \<le> a \<and> a < 256" "0 \<le> b \<and> b < 256" "0 \<le> c \<and> c < 256" "0 \<le> d \<and> d < 256"
  shows "- (2 ^ 31) \<le> (if 128 \<le> a then a - 256 else a)
         \<and> (if 128 \<le> a then a - 256 else a) < 2 ^ 31"
    and "- (2 ^ 31) \<le> (if 128 \<le> a then a * 256 + b - 65536 else a * 256 + b)
         \<and> (if 128 \<le> a then a * 256 + b - 65536 else a * 256 + b) < 2 ^ 31"
    and "- (2 ^ 31) \<le> (if 128 \<le> a then (a * 256 + b) * 256 + c - 16777216
                          else (a * 256 + b) * 256 + c)
         \<and> (if 128 \<le> a then (a * 256 + b) * 256 + c - 16777216
             else (a * 256 + b) * 256 + c) < 2 ^ 31"
    and "- (2 ^ 31) \<le> (if 128 \<le> a then ((a * 256 + b) * 256 + c) * 256 + d - 4294967296
                          else ((a * 256 + b) * 256 + c) * 256 + d)
         \<and> (if 128 \<le> a then ((a * 256 + b) * 256 + c) * 256 + d - 4294967296
             else ((a * 256 + b) * 256 + c) * 256 + d) < 2 ^ 31"
  using assms by auto

lemma sign_extended_range:
  assumes "bs \<noteq> []" "length bs \<le> 4"
  shows "- (2 ^ 31) \<le> sign_extended bs \<and> sign_extended bs < 2 ^ 31"
proof -
  from assms consider a where "bs = [a]" | a b where "bs = [a, b]"
    | a b c where "bs = [a, b, c]" | a b c d where "bs = [a, b, c, d]"
    by (cases bs; cases "tl bs"; cases "tl (tl bs)"; cases "tl (tl (tl bs))";
        cases "tl (tl (tl (tl bs)))") auto
  then show ?thesis
  proof cases
    case 1
    have "sign_extended bs = (if 128 \<le> uint a then uint a - 256 else uint a)"
      unfolding 1 sign_extended.simps big_endian_1 high_bit_uint by simp
    then show ?thesis
      using range_int(1) [OF byte_range [of a] byte_range [of a] byte_range [of a]
          byte_range [of a]]
      by presburger
  next
    case 2
    have "sign_extended bs = (if 128 \<le> uint a then uint a * 256 + uint b - 65536
                              else uint a * 256 + uint b)"
      unfolding 2 sign_extended.simps big_endian_2 high_bit_uint by simp
    then show ?thesis
      using range_int(2) [OF byte_range [of a] byte_range [of b] byte_range [of a]
          byte_range [of a]]
      by presburger
  next
    case 3
    have "sign_extended bs =
            (if 128 \<le> uint a then (uint a * 256 + uint b) * 256 + uint c - 16777216
             else (uint a * 256 + uint b) * 256 + uint c)"
      unfolding 3 sign_extended.simps big_endian_3 high_bit_uint by simp
    then show ?thesis
      using range_int(3) [OF byte_range [of a] byte_range [of b] byte_range [of c]
          byte_range [of a]]
      by presburger
  next
    case 4
    have "sign_extended bs =
            (if 128 \<le> uint a
             then ((uint a * 256 + uint b) * 256 + uint c) * 256 + uint d - 4294967296
             else ((uint a * 256 + uint b) * 256 + uint c) * 256 + uint d)"
      unfolding 4 sign_extended.simps big_endian_4 high_bit_uint by simp
    then show ?thesis
      using range_int(4) [OF byte_range [of a] byte_range [of b] byte_range [of c]
          byte_range [of d]]
      by presburger
  qed
qed

lemma sint_sign_extended:
  assumes "bs \<noteq> []" "length bs \<le> 4"
  shows "sint (word_of_int (sign_extended bs) :: C_int) = sign_extended bs"
  using sign_extended_range [OF assms]
  by (simp add: signed_of_int signed_take_bit_int_eq_self)

lemma shift_in_sign_extended:
  "shift_in (if b AND 0x80 \<noteq> 0 then - 1 else 0) (b # rest)
     = word_of_int (sign_extended (b # rest))"
  by (simp add: shift_in_value)

lemma bytes_from_Cons:
  "0 < n \<Longrightarrow> bytes_from m off n = m off # bytes_from m (Suc off) (n - 1)"
proof -
  assume "0 < n"
  then obtain k where k: "n = Suc k" by (cases n) auto
  have "map (\<lambda>i. m (off + i)) [0..<Suc k] = m off # map (\<lambda>i. m (Suc off + i)) [0..<k]"
    by (simp add: upt_conv_Cons map_Suc_upt [symmetric] del: upt_Suc)
  then show ?thesis by (simp add: bytes_from_def k)
qed

lemma length_bytes_from: "length (bytes_from m off n) = n"
  by (simp add: bytes_from_def)

lemma EncodeEnsureSpace_too_small:
  "dwFlags AND CRYPT_ENCODE_ALLOC_FLAG = 0 \<Longrightarrow> cb < bytesNeeded \<Longrightarrow>
     CRYPT_EncodeEnsureSpace os dwFlags pEncodePara cb bytesNeeded
       = enc_fail (Some ERROR_MORE_DATA) bytesNeeded"
  by (simp add: CRYPT_EncodeEnsureSpace_def)

subsection \<open>The sort of the encoded attributes\<close>

text \<open>
  \<open>BLOBComp\<close> orders two blobs by their bytes, a proper prefix first, as long as
  each blob is shorter than \<open>2 ^ 31\<close> bytes (the difference of the two lengths is
  returned as an \<open>int\<close>). So \<open>qsort\<close> with \<open>BLOBComp\<close> puts the blobs in the
  lexicographic order of their contents, and two arrays holding the same encoded
  attributes in different orders are concatenated to the same bytes.
\<close>

lemma cmp_bytes_take:
  "cmp_bytes (take (min (length xs) (length ys)) xs) (take (min (length xs) (length ys)) ys)
     = cmp_bytes xs ys"
  by (induction xs ys rule: cmp_bytes.induct) auto

lemma Nil_less_iff: "[] < ys \<longleftrightarrow> ys \<noteq> []"
  by (cases ys) auto

lemma cmp_bytes_le:
  "(if cmp_bytes xs ys = 0 then int (length xs) - int (length ys) else cmp_bytes xs ys) \<le> 0
     \<longleftrightarrow> xs \<le> ys"
  by (induction xs ys rule: cmp_bytes.induct) (auto simp: list_le_def Nil_less_iff)

lemma take_bytes_from: "k \<le> n \<Longrightarrow> take k (bytes_from m off n) = bytes_from m off k"
proof -
  assume "k \<le> n"
  then have "take k [0..<n] = [0..<k]" by simp
  then show ?thesis unfolding bytes_from_def take_map by simp
qed

lemma unat_min: "unat (min (a :: DWORD) b) = min (unat a) (unat b)"
  by (simp add: min_def word_le_nat_alt)

lemma sint_small:
  fixes a :: DWORD
  assumes "unat a < 2 ^ 31"
  shows "sint a = uint a"
proof -
  have "int (unat a) < int (2 ^ 31)" using assms by (simp only: of_nat_less_iff)
  then have "uint a < 2 ^ 31" by simp
  then have "signed_take_bit 31 (uint a) = uint a"
    using uint_ge_0 [of a] by (intro signed_take_bit_int_eq_self) linarith+
  then show ?thesis by (simp add: sint_uint)
qed

lemma sint_diff_small:
  fixes a b :: DWORD
  assumes "unat a < 2 ^ 31" "unat b < 2 ^ 31"
  shows "sint (a - b) = uint a - uint b"
proof -
  have "int (unat a) < int (2 ^ 31)" using assms(1) by (simp only: of_nat_less_iff)
  then have ua: "uint a < 2 ^ 31" by simp
  have "int (unat b) < int (2 ^ 31)" using assms(2) by (simp only: of_nat_less_iff)
  then have ub: "uint b < 2 ^ 31" by simp
  have "sint (a - b) = signed_take_bit 31 (sint a - sint b)"
    by (simp add: sint_word_ariths)
  also have "\<dots> = signed_take_bit 31 (uint a - uint b)"
    by (simp only: sint_small [OF assms(1)] sint_small [OF assms(2)])
  also have "\<dots> = uint a - uint b"
  proof (rule signed_take_bit_int_eq_self)
    show "- (2 ^ 31) \<le> uint a - uint b"
      using ub uint_ge_0 [of a] by linarith
    show "uint a - uint b < 2 ^ 31"
      using ua uint_ge_0 [of b] by linarith
  qed
  finally show ?thesis .
qed

lemma BLOBComp_le:
  assumes "unat (cbData a) < 2 ^ 31" "unat (cbData b) < 2 ^ 31"
  shows "BLOBComp a b \<le> 0 \<longleftrightarrow> blob_bytes a \<le> blob_bytes b"
proof -
  let ?xs = "blob_bytes a" and ?ys = "blob_bytes b"
  let ?k = "min (length ?xs) (length ?ys)"
  have la: "length ?xs = unat (cbData a)" and lb: "length ?ys = unat (cbData b)"
    by (simp_all add: blob_bytes_def length_bytes_from)
  have k: "unat (min (cbData a) (cbData b)) = ?k"
    by (simp add: unat_min la lb)
  have ta: "bytes_from (pbData a) 0 ?k = take ?k ?xs"
    unfolding blob_bytes_def by (rule take_bytes_from [symmetric]) (simp add: length_bytes_from)
  have tb: "bytes_from (pbData b) 0 ?k = take ?k ?ys"
    unfolding blob_bytes_def by (rule take_bytes_from [symmetric]) (simp add: length_bytes_from)
  have m: "memcmp (pbData a) (pbData b) (unat (min (cbData a) (cbData b))) = cmp_bytes ?xs ?ys"
    unfolding memcmp_def k ta tb by (rule cmp_bytes_take)
  have d: "sint (cbData a - cbData b) = int (length ?xs) - int (length ?ys)"
    unfolding la lb using sint_diff_small [OF assms] by simp
  show ?thesis
    unfolding BLOBComp_def Let_def m d by (rule cmp_bytes_le)
qed

lemma qsort_insert_insort:
  assumes "unat (cbData x) < 2 ^ 31" "\<forall>b \<in> set ys. unat (cbData b) < 2 ^ 31"
  shows "qsort_insert BLOBComp x ys = insort_key blob_bytes x ys"
  using assms by (induction ys) (auto simp: BLOBComp_le)

lemma qsort_sort_key:
  assumes "\<forall>b \<in> set xs. unat (cbData b) < 2 ^ 31"
  shows "qsort BLOBComp xs = sort_key blob_bytes xs"
  using assms
proof (induction xs)
  case Nil
  show ?case by (simp add: qsort_def sort_key_def)
next
  case (Cons x xs)
  then have IH: "foldr (qsort_insert BLOBComp) xs [] = sort_key blob_bytes xs"
    by (simp add: qsort_def)
  have "\<forall>b \<in> set (sort_key blob_bytes xs). unat (cbData b) < 2 ^ 31"
    using Cons.prems by simp
  with Cons.prems show ?case
    by (simp add: qsort_def IH qsort_insert_insort)
qed

lemma qsort_BLOBComp_sorted:
  assumes "\<forall>b \<in> set xs. unat (cbData b) < 2 ^ 31"
  shows "map blob_bytes (qsort BLOBComp xs) = sort (map blob_bytes xs)"
proof -
  have "sort (map blob_bytes xs) = map blob_bytes (sort_key blob_bytes xs)"
    by (rule properties_for_sort) simp_all
  then show ?thesis by (simp add: qsort_sort_key [OF assms])
qed

lemma qsort_BLOBComp_canonical:
  assumes xs: "\<forall>b \<in> set xs. unat (cbData b) < 2 ^ 31"
    and ys: "\<forall>b \<in> set ys. unat (cbData b) < 2 ^ 31"
    and perm: "mset (map blob_bytes xs) = mset (map blob_bytes ys)"
  shows "concat (map blob_bytes (qsort BLOBComp xs)) = concat (map blob_bytes (qsort BLOBComp ys))"
proof -
  have "map blob_bytes (qsort BLOBComp xs) = sort (map blob_bytes xs)"
    by (rule qsort_BLOBComp_sorted [OF xs])
  also have "\<dots> = sort (map blob_bytes ys)"
    using perm by (intro properties_for_sort) simp_all
  also have "\<dots> = map blob_bytes (qsort BLOBComp ys)"
    by (rule qsort_BLOBComp_sorted [OF ys, symmetric])
  finally show ?thesis by simp
qed

section \<open>Example values\<close>

text \<open>
  Two attributes of a relative distinguished name, both printable strings: the common
  name \<open>Test\<close> under \<open>2.5.4.3\<close>, and \<open>A\<close> under \<open>1.2.3\<close>. The encoded object
  identifier of the first takes 5 bytes, that of the second 4.
\<close>

definition attr_CN :: CERT_RDN_ATTR where
  "attr_CN = \<lparr>dwValueType = CERT_RDN_PRINTABLE_STRING,
               Value = \<lparr>cbData = 4, pbData = mem_of [0x54, 0x65, 0x73, 0x74]\<rparr>,
               pszObjId = Some ''2.5.4.3''\<rparr>"

definition attr_A :: CERT_RDN_ATTR where
  "attr_A = \<lparr>dwValueType = CERT_RDN_PRINTABLE_STRING,
              Value = \<lparr>cbData = 1, pbData = mem_of [0x41]\<rparr>,
              pszObjId = Some ''1.2.3''\<rparr>"

text \<open>
  A process heap whose first scratch buffer holds bytes \<open>0xFF\<close> and whose later
  scratch buffers hold bytes \<open>0x04\<close>, and one whose fresh memory is zero.
\<close>

definition heap_FF_04 :: process_heap where
  "heap_FF_04 = \<lparr>HeapAlloc_blobs = (\<lambda>_. True),
                  HeapAlloc_scratch = (\<lambda>i n. Some (\<lambda>_. if i = 0 then 0xFF else 0x04))\<rparr>"

definition heap_zero :: process_heap where
  "heap_zero = \<lparr>HeapAlloc_blobs = (\<lambda>_. True), HeapAlloc_scratch = (\<lambda>i n. Some (\<lambda>_. 0))\<rparr>"

text \<open>The system time 2015-04-15 00:00:00, a Wednesday, and a conversion that yields it.\<close>

definition time_2015_04_15 :: SYSTEMTIME where
  "time_2015_04_15 = \<lparr>wYear = 2015, wMonth = 4, wDayOfWeek = 3, wDay = 15, wHour = 0,
                       wMinute = 0, wSecond = 0, wMilliseconds = 0\<rparr>"

definition time_is :: "SYSTEMTIME \<Rightarrow> timeapi" where
  "time_is sysTime =
     \<lparr>FileTimeToSystemTime = (\<lambda>_. Some sysTime), SystemTimeToFileTime = (\<lambda>_. None)\<rparr>"

definition local_heap :: kernel32 where
  "local_heap = \<lparr>LocalAlloc = (\<lambda>_. True)\<rparr>"

text \<open>
  A dispatch environment in which only \<open>CryptDecodeObject\<close> has a registered
  function (number 7) and in which a call returns the function called and the
  arguments it got; and a call for the structure \<open>X509_BITS\<close> with an output buffer
  and a null size cell.
\<close>

definition env_example :: "(nat, unit, nat target \<times> unit call_args) dispatch_env" where
  "env_example =
     \<lparr>CRYPT_GetFunc = (\<lambda>t s name. if name = ''CryptDecodeObject'' then Some 7 else None),
      invoke = (\<lambda>f a. (f, a))\<rparr>"

definition args_example :: "unit call_args" where
  "args_example =
     \<lparr>encodingType = X509_ASN_ENCODING, structType = IntResource X509_BITS, input = (),
      flags = 0x8000, para = None, pvOut = Some (mem_of []), pcbOut = None\<rparr>"

text \<open>
  The key of the registry for the encoding type \<open>X509_ASN_ENCODING\<close>, the function
  name \<open>CryptEncodeObject\<close> and the structure identifier \<open>1.2.3\<close>.
\<close>

definition key_example :: string where
  "key_example = ''Software'' @ [backslash] @ ''Microsoft'' @ [backslash] @ ''Cryptography''
     @ [backslash] @ ''OID'' @ [backslash] @ ''EncodingType 1'' @ [backslash]
     @ ''CryptEncodeObject'' @ [backslash] @ ''1.2.3''"

section \<open>The claims\<close>

text \<open>
  Claim C1: a writing call (non-null output pointer) whose capacity is less than
  \<open>bytesNeeded\<close> sets the size cell to the required size and fails with
  \<open>ERROR_MORE_DATA\<close>, and the check of the object identifier encoder compares the
  capacity cell with \<open>bytesNeeded\<close>. The source compares \<open>*pbEncoded\<close>, the byte found
  at the start of the output buffer: whether a writing call of the object identifier
  encoder succeeds, and what it stores, is the same for every two capacities \<open>cb\<close>
  and \<open>cb'\<close>. With the text \<open>1.2.3\<close> (4 bytes needed), a capacity of 0 and a buffer
  that starts with \<open>0xFF\<close>, the encoder returns \<open>TRUE\<close> and stores the 4 bytes; with
  a capacity of 100 and a buffer that starts with \<open>0x00\<close> it fails with
  \<open>ERROR_MORE_DATA\<close>.
\<close>

theorem EncodeOid_checks_first_buffer_byte:
  "ret (CRYPT_AsnEncodeOid oid (Some m) cb) = ret (CRYPT_AsnEncodeOid oid (Some m) cb')
   \<and> written (CRYPT_AsnEncodeOid oid (Some m) cb)
       = written (CRYPT_AsnEncodeOid oid (Some m) cb')
   \<and> CRYPT_AsnEncodeOid (Some ''1.2.3'') (Some (mem_of [0xFF])) 0
       = \<lparr>ret = True, last_error = None, size_cell = 4, written = [0x06, 0x02, 0x2A, 0x03],
          allocated = None\<rparr>
   \<and> CRYPT_AsnEncodeOid (Some ''1.2.3'') (Some (mem_of [0x00])) 100
       = \<lparr>ret = False, last_error = Some ERROR_MORE_DATA, size_cell = 4, written = [],
          allocated = None\<rparr>"
proof (intro conjI)
  show "ret (CRYPT_AsnEncodeOid oid (Some m) cb)
      = ret (CRYPT_AsnEncodeOid oid (Some m) cb')"
    by (simp add: CRYPT_AsnEncodeOid_def enc_fail_def enc_ok_def Let_def
        split: option.splits prod.splits)
  show "written (CRYPT_AsnEncodeOid oid (Some m) cb)
      = written (CRYPT_AsnEncodeOid oid (Some m) cb')"
    by (simp add: CRYPT_AsnEncodeOid_def enc_fail_def enc_ok_def Let_def
        split: option.splits prod.splits)
  show "CRYPT_AsnEncodeOid (Some ''1.2.3'') (Some (mem_of [0xFF])) 0
      = \<lparr>ret = True, last_error = None, size_cell = 4, written = [0x06, 0x02, 0x2A, 0x03],
         allocated = None\<rparr>"
    by code_simp
  show "CRYPT_AsnEncodeOid (Some ''1.2.3'') (Some (mem_of [0x00])) 100
      = \<lparr>ret = False, last_error = Some ERROR_MORE_DATA, size_cell = 4, written = [],
         allocated = None\<rparr>"
    by code_simp
qed

text \<open>
  Claim C2: the RDN encoder gives the same bytes for every order of the attributes,
  each attribute being encoded into a scratch buffer, the buffers sorted and
  concatenated under the tag \<open>31\<close>. The scratch buffers come from \<open>HeapAlloc\<close> without
  \<open>HEAP_ZERO_MEMORY\<close>, and the object identifier encoder reads a byte of them as a
  capacity (the defect of claim C1): whether an attribute is encoded depends on what
  the heap holds. On a heap whose first scratch buffer holds \<open>0xFF\<close> and whose second
  holds \<open>0x04\<close>, the order \<open>[attr_CN, attr_A]\<close> is encoded (sorted, \<open>attr_A\<close> first)
  and the order \<open>[attr_A, attr_CN]\<close> fails with \<open>ERROR_MORE_DATA\<close> although the
  capacity 100 exceeds the 24 bytes needed; on a heap of zero bytes the encoding of the
  single attribute \<open>attr_CN\<close> fails in the same way.
\<close>

theorem EncodeRdn_depends_on_scratch_memory:
  "CRYPT_AsnEncodeRdn heap_FF_04 \<lparr>cRDNAttr = 2, rgRDNAttr = Some [attr_CN, attr_A]\<rparr>
       (Some (mem_of [])) 100
     = \<lparr>ret = True, last_error = None, size_cell = 24,
        written = [0x31, 0x16,
                   0x30, 0x07, 0x06, 0x02, 0x2A, 0x03, 0x13, 0x01, 0x41,
                   0x30, 0x0B, 0x06, 0x03, 0x55, 0x04, 0x03, 0x13, 0x04, 0x54, 0x65, 0x73, 0x74],
        allocated = None\<rparr>
   \<and> CRYPT_AsnEncodeRdn heap_FF_04 \<lparr>cRDNAttr = 2, rgRDNAttr = Some [attr_A, attr_CN]\<rparr>
       (Some (mem_of [])) 100
     = \<lparr>ret = False, last_error = Some ERROR_MORE_DATA, size_cell = 24, written = [],
        allocated = None\<rparr>
   \<and> CRYPT_AsnEncodeRdn heap_zero \<lparr>cRDNAttr = 1, rgRDNAttr = Some [attr_CN]\<rparr>
       (Some (mem_of [])) 100
     = \<lparr>ret = False, last_error = Some ERROR_MORE_DATA, size_cell = 15, written = [],
        allocated = None\<rparr>"
  by code_simp

text \<open>
  Claim C3: for a long-form length octet with \<open>n\<close> length bytes, \<open>CRYPT_GetLen\<close>
  fails with \<open>CRYPT_E_ASN1_LARGE\<close> when \<open>n > 4\<close>, and for \<open>n \<le> 4\<close> fails with
  \<open>CRYPT_E_ASN1_EOD\<close> exactly when the contents length does not fit, and returns it
  otherwise. The source counts the leading octet among the length bytes: it rejects
  \<open>n = 4\<close>, reads \<open>n + 1\<close> bytes into the length, and tests the length plus 256 against
  \<open>cbEncoded\<close>. The length octets \<open>81 80\<close>, which \<open>CRYPT_EncodeLen\<close> writes for 128,
  followed by 128 content bytes, fail with \<open>CRYPT_E_ASN1_EOD\<close>; the octets
  \<open>84 00 00 00 01\<close> followed by one content byte fail with \<open>CRYPT_E_ASN1_LARGE\<close>.
\<close>

theorem GetLen_long_form_rejected:
  "len_octets 128 = [0x81, 0x80]
   \<and> CRYPT_GetLen (mem_of ([0x04, 0x81, 0x80] @ replicate 128 0x00)) 131 = Inl CRYPT_E_ASN1_EOD
   \<and> CRYPT_GetLen (mem_of [0x04, 0x84, 0x00, 0x00, 0x00, 0x01, 0xAA]) 7 = Inl CRYPT_E_ASN1_LARGE"
  by code_simp

text \<open>
  Claim C4: for a year in [1950, 2050] the UTCTime encoder emits the tag, the length 13
  and the characters \<open>YYMMDDHHMMSSZ\<close>, the month before the day; 2015-04-15 00:00:00
  is \<open>17 0D 31 35 30 34 31 35 30 30 30 30 30 30 5A\<close>. The source passes \<open>wDay\<close>
  before \<open>wMonth\<close> to \<open>snprintf\<close>: the bytes it stores for that time are
  \<open>17 0D 31 35 31 35 30 34 30 30 30 30 30 30 5A\<close>, the day 15 before the month 04.
\<close>

theorem EncodeUtcTime_day_before_month:
  "written (CRYPT_AsnEncodeUtcTime local_heap (time_is time_2015_04_15) (Some 0) 0 None
              (Some (mem_of [])) 15)
     = [0x17, 0x0D, 0x31, 0x35, 0x31, 0x35, 0x30, 0x34, 0x30, 0x30, 0x30, 0x30, 0x30, 0x30, 0x5A]
   \<and> written (CRYPT_AsnEncodeUtcTime local_heap (time_is time_2015_04_15) (Some 0) 0 None
              (Some (mem_of [])) 15)
     \<noteq> [0x17, 0x0D, 0x31, 0x35, 0x30, 0x34, 0x31, 0x35, 0x30, 0x30, 0x30, 0x30, 0x30, 0x30, 0x5A]"
  by code_simp

text \<open>
  Claim C5: with a non-null output area and the tag \<open>02\<close>, the integer decoder fails
  with \<open>CRYPT_E_ASN1_CORRUPT\<close> for a content length of zero and with
  \<open>CRYPT_E_ASN1_LARGE\<close> for a content length above 4; otherwise the value it stores is
  the content read big-endian, sign-extended when the first content byte has its high
  bit set and zero-extended otherwise. The content length is the length octet
  \<open>pbEncoded[1]\<close>, which the decoder reads in short form (a long-form octet is above 4
  and fails with \<open>CRYPT_E_ASN1_LARGE\<close>); the input holds at least the tag and that
  octet (\<open>1 < cbEncoded\<close>). The value is stored when the space check passes, whose
  result the call returns otherwise.
\<close>

theorem DecodeInt_length_and_value:
  assumes "pvStructInfo \<noteq> None" and "m 0 = ASN_INTEGER" and "1 < cbEncoded"
  shows "(m 1 = 0 \<longrightarrow>
            CRYPT_AsnDecodeInt os (Some m) cbEncoded dwFlags pDecodePara pvStructInfo cb
              = dec_fail (Some CRYPT_E_ASN1_CORRUPT) cb)
       \<and> (4 < unat (m 1) \<longrightarrow>
            CRYPT_AsnDecodeInt os (Some m) cbEncoded dwFlags pDecodePara pvStructInfo cb
              = dec_fail (Some CRYPT_E_ASN1_LARGE) cb)
       \<and> (m 1 \<noteq> 0 \<and> unat (m 1) \<le> 4 \<longrightarrow>
            CRYPT_AsnDecodeInt os (Some m) cbEncoded dwFlags pDecodePara pvStructInfo cb
              = (let space = CRYPT_DecodeEnsureSpace os dwFlags pDecodePara cb 4
                 in if dec_ret space
                    then space\<lparr>decoded :=
                           Some (word_of_int (sign_extended (bytes_from m 2 (unat (m 1)))))\<rparr>
                    else space)
            \<and> sint (word_of_int (sign_extended (bytes_from m 2 (unat (m 1)))) :: C_int)
                = sign_extended (bytes_from m 2 (unat (m 1))))"
proof (intro conjI impI)
  assume "m 1 = 0"
  with assms show "CRYPT_AsnDecodeInt os (Some m) cbEncoded dwFlags pDecodePara pvStructInfo cb
      = dec_fail (Some CRYPT_E_ASN1_CORRUPT) cb"
    by (auto simp: CRYPT_AsnDecodeInt_def)
next
  assume "4 < unat (m 1)"
  moreover from this have "m 1 \<noteq> 0" by auto
  ultimately show "CRYPT_AsnDecodeInt os (Some m) cbEncoded dwFlags pDecodePara pvStructInfo cb
      = dec_fail (Some CRYPT_E_ASN1_LARGE) cb"
    using assms by (auto simp: CRYPT_AsnDecodeInt_def)
next
  assume len: "m 1 \<noteq> 0 \<and> unat (m 1) \<le> 4"
  then have pos: "0 < unat (m 1)" by (simp add: unat_gt_0)
  let ?bs = "bytes_from m 2 (unat (m 1))"
  have cons: "?bs = m 2 # bytes_from m 3 (unat (m 1) - 1)"
    using bytes_from_Cons [OF pos, of m 2] by (simp add: numeral_3_eq_3 numeral_2_eq_2)
  have val: "shift_in (if m 2 AND 0x80 \<noteq> 0 then - 1 else 0) ?bs
      = word_of_int (sign_extended ?bs)"
    unfolding cons by (rule shift_in_sign_extended)
  from assms len val
  show "CRYPT_AsnDecodeInt os (Some m) cbEncoded dwFlags pDecodePara pvStructInfo cb
      = (let space = CRYPT_DecodeEnsureSpace os dwFlags pDecodePara cb 4
         in if dec_ret space
            then space\<lparr>decoded := Some (word_of_int (sign_extended ?bs))\<rparr>
            else space)"
    by (auto simp: CRYPT_AsnDecodeInt_def Let_def)
  have "?bs \<noteq> []" using cons by simp
  moreover have "length ?bs \<le> 4" using len by (simp add: length_bytes_from)
  ultimately show "sint (word_of_int (sign_extended ?bs) :: C_int) = sign_extended ?bs"
    by (rule sint_sign_extended)
qed

text \<open>
  The theorem at four inputs: \<open>02 00\<close> is corrupt, \<open>02 05 01 02 03 04 05\<close> is too
  large, \<open>02 01 FF\<close> is \<open>-1\<close> and \<open>02 02 00 80\<close> is 128, each with a capacity of 4.
\<close>

theorem DecodeInt_length_and_value_witness:
  "CRYPT_AsnDecodeInt local_heap (Some (mem_of [0x02, 0x00])) 2 0 None (Some (mem_of [])) 4
     = dec_fail (Some CRYPT_E_ASN1_CORRUPT) 4
   \<and> CRYPT_AsnDecodeInt local_heap
       (Some (mem_of [0x02, 0x05, 0x01, 0x02, 0x03, 0x04, 0x05])) 7 0 None (Some (mem_of [])) 4
     = dec_fail (Some CRYPT_E_ASN1_LARGE) 4
   \<and> CRYPT_AsnDecodeInt local_heap (Some (mem_of [0x02, 0x01, 0xFF])) 3 0 None
       (Some (mem_of [])) 4
     = dec_ok 4 (Some (- 1))
   \<and> CRYPT_AsnDecodeInt local_heap (Some (mem_of [0x02, 0x02, 0x00, 0x80])) 4 0 None
       (Some (mem_of [])) 4
     = dec_ok 4 (Some 128)"
proof -
  have c1: "CRYPT_AsnDecodeInt local_heap (Some (mem_of [0x02, 0x00])) 2 0 None
      (Some (mem_of [])) 4 = dec_fail (Some CRYPT_E_ASN1_CORRUPT) 4"
    using DecodeInt_length_and_value [where m = "mem_of [0x02, 0x00]"
        and pvStructInfo = "Some (mem_of [])" and cbEncoded = 2 and os = local_heap
        and dwFlags = 0 and pDecodePara = None and cb = 4]
    by (simp add: mem_of_def tag_defs)
  have c2: "CRYPT_AsnDecodeInt local_heap
      (Some (mem_of [0x02, 0x05, 0x01, 0x02, 0x03, 0x04, 0x05])) 7 0 None (Some (mem_of [])) 4
      = dec_fail (Some CRYPT_E_ASN1_LARGE) 4"
    using DecodeInt_length_and_value [where m = "mem_of [0x02, 0x05, 0x01, 0x02, 0x03, 0x04, 0x05]"
        and pvStructInfo = "Some (mem_of [])" and cbEncoded = 7 and os = local_heap
        and dwFlags = 0 and pDecodePara = None and cb = 4]
    by (simp add: mem_of_def tag_defs)
  have "CRYPT_AsnDecodeInt local_heap (Some (mem_of [0x02, 0x01, 0xFF])) 3 0 None
      (Some (mem_of [])) 4
      = (let space = CRYPT_DecodeEnsureSpace local_heap 0 None 4 4
         in if dec_ret space
            then space\<lparr>decoded := Some (word_of_int (sign_extended
                   (bytes_from (mem_of [0x02, 0x01, 0xFF]) 2
                      (unat (mem_of [0x02, 0x01, 0xFF] 1)))))\<rparr>
            else space)"
    using DecodeInt_length_and_value [where m = "mem_of [0x02, 0x01, 0xFF]"
        and pvStructInfo = "Some (mem_of [])" and cbEncoded = 3 and os = local_heap
        and dwFlags = 0 and pDecodePara = None and cb = 4]
    by (simp add: mem_of_def tag_defs)
  also have "\<dots> = dec_ok 4 (Some (- 1))" by code_simp
  finally have c3: "CRYPT_AsnDecodeInt local_heap (Some (mem_of [0x02, 0x01, 0xFF])) 3 0 None
      (Some (mem_of [])) 4 = dec_ok 4 (Some (- 1))" .
  have "CRYPT_AsnDecodeInt local_heap (Some (mem_of [0x02, 0x02, 0x00, 0x80])) 4 0 None
      (Some (mem_of [])) 4
      = (let space = CRYPT_DecodeEnsureSpace local_heap 0 None 4 4
         in if dec_ret space
            then space\<lparr>decoded := Some (word_of_int (sign_extended
                   (bytes_from (mem_of [0x02, 0x02, 0x00, 0x80]) 2
                      (unat (mem_of [0x02, 0x02, 0x00, 0x80] 1)))))\<rparr>
            else space)"
    using DecodeInt_length_and_value [where m = "mem_of [0x02, 0x02, 0x00, 0x80]"
        and pvStructInfo = "Some (mem_of [])" and cbEncoded = 4 and os = local_heap
        and dwFlags = 0 and pDecodePara = None and cb = 4]
    by (simp add: mem_of_def tag_defs)
  also have "\<dots> = dec_ok 4 (Some 128)" by code_simp
  finally have c4: "CRYPT_AsnDecodeInt local_heap (Some (mem_of [0x02, 0x02, 0x00, 0x80])) 4 0
      None (Some (mem_of [])) 4 = dec_ok 4 (Some 128)" .
  from c1 c2 c3 c4 show ?thesis by blast
qed

text \<open>
  Claim C6: for a bit string with \<open>cUnusedBits \<ge> 8\<close> the encoder emits
  \<open>ceil((8 * cbData - cUnusedBits) / 8)\<close> content bytes and the unused-bits octet
  \<open>cUnusedBits mod 8\<close>, and clears the unused bits of the last content byte. The source
  divides where the claim takes the remainder (\<open>cUnusedBits / 8\<close>) and takes
  \<open>(8 * cbData - cUnusedBits) / 8 + 1\<close> content bytes. For the bytes \<open>FF C0 00\<close> with
  14 unused bits the claim gives \<open>03 03 06 FF C0\<close>; the source stores the unused-bits
  octet \<open>01\<close>. For two bytes \<open>FF FF\<close> with 8 unused bits the claim gives one content
  byte and the octet \<open>00\<close>; the source stores two content bytes and the octet \<open>01\<close>.
\<close>

theorem EncodeBits_unused_bits_divided:
  "written (CRYPT_AsnEncodeBits local_heap
              (Some \<lparr>cbData = 3, pbData = mem_of [0xFF, 0xC0, 0x00], cUnusedBits = 14\<rparr>)
              0 None (Some (mem_of [])) 16)
     = [0x03, 0x03, 0x01, 0xFF, 0xC0]
   \<and> written (CRYPT_AsnEncodeBits local_heap
              (Some \<lparr>cbData = 2, pbData = mem_of [0xFF, 0xFF], cUnusedBits = 8\<rparr>)
              0 None (Some (mem_of [])) 16)
     = [0x03, 0x03, 0x01, 0xFF, 0xFE]"
  by code_simp

text \<open>
  Claim C7: for a time whose year is below 1950 or above 2050 the UTCTime encoder
  fails with \<open>CRYPT_E_BAD_ENCODE\<close> and writes nothing: no byte is stored, the size cell
  keeps its value and nothing is allocated. The time is the one
  \<open>FileTimeToSystemTime\<close> yields for the input.
\<close>

theorem EncodeUtcTime_year_out_of_range:
  assumes "FileTimeToSystemTime tm ft = Some sysTime"
    and "wYear sysTime < 1950 \<or> 2050 < wYear sysTime"
  shows "CRYPT_AsnEncodeUtcTime os tm (Some ft) dwFlags pEncodePara pbEncoded cb
           = \<lparr>ret = False, last_error = Some CRYPT_E_BAD_ENCODE, size_cell = cb, written = [],
              allocated = None\<rparr>"
  using assms by (simp add: CRYPT_AsnEncodeUtcTime_def enc_fail_def)

text \<open>The theorem at the years 2051 and 1949, with a buffer of 15 bytes.\<close>

theorem EncodeUtcTime_year_out_of_range_witness:
  "CRYPT_AsnEncodeUtcTime local_heap (time_is (time_2015_04_15\<lparr>wYear := 2051\<rparr>)) (Some 0) 0
       None (Some (mem_of [])) 15
     = \<lparr>ret = False, last_error = Some CRYPT_E_BAD_ENCODE, size_cell = 15, written = [],
        allocated = None\<rparr>
   \<and> CRYPT_AsnEncodeUtcTime local_heap (time_is (time_2015_04_15\<lparr>wYear := 1949\<rparr>)) (Some 0) 0
       None (Some (mem_of [])) 15
     = \<lparr>ret = False, last_error = Some CRYPT_E_BAD_ENCODE, size_cell = 15, written = [],
        allocated = None\<rparr>"
proof -
  have h1: "FileTimeToSystemTime (time_is (time_2015_04_15\<lparr>wYear := 2051\<rparr>)) 0
      = Some (time_2015_04_15\<lparr>wYear := 2051\<rparr>)"
    by (simp add: time_is_def)
  have h2: "wYear (time_2015_04_15\<lparr>wYear := 2051\<rparr>) < 1950
      \<or> 2050 < wYear (time_2015_04_15\<lparr>wYear := 2051\<rparr>)"
    by simp
  have h3: "FileTimeToSystemTime (time_is (time_2015_04_15\<lparr>wYear := 1949\<rparr>)) 0
      = Some (time_2015_04_15\<lparr>wYear := 1949\<rparr>)"
    by (simp add: time_is_def)
  have h4: "wYear (time_2015_04_15\<lparr>wYear := 1949\<rparr>) < 1950
      \<or> 2050 < wYear (time_2015_04_15\<lparr>wYear := 1949\<rparr>)"
    by simp
  show ?thesis
    using EncodeUtcTime_year_out_of_range [OF h1 h2] EncodeUtcTime_year_out_of_range [OF h3 h4]
    by simp
qed

text \<open>
  Claim C8: the register operation returns success without a store write when the
  encoding family is not a certificate family or when the module name is empty, and
  fails with \<open>ERROR_INVALID_PARAMETER\<close> when the function name or the structure
  identifier is null. The source differs in two places. The two halves overlap, and the
  source decides the overlap for the first: with the encoding type
  \<open>PKCS_7_ASN_ENCODING\<close>, which names no certificate family, a null function name
  returns \<open>TRUE\<close>. And the source tests the module name for the null pointer, not for
  the empty string: with \<open>X509_ASN_ENCODING\<close>, a function name, a structure identifier
  and a module name that is the empty string, the call creates the key and writes the
  empty string as its value \<open>Dll\<close>, so the store is no longer empty.
\<close>

theorem Register_null_funcName_empty_module_counterexample:
  "CryptRegisterOIDFunction \<lparr>RegCreateKeyA_ok = (\<lambda>_. True), HeapAlloc_ok = (\<lambda>_. True)\<rparr>
       Map.empty PKCS_7_ASN_ENCODING None (StringPtr ''1.2.3'') (Some ''plugin.dll'') None
     = \<lparr>reg_ret = True, reg_error = None, reg_store = Map.empty\<rparr>
   \<and> CryptRegisterOIDFunction \<lparr>RegCreateKeyA_ok = (\<lambda>_. True), HeapAlloc_ok = (\<lambda>_. True)\<rparr>
       Map.empty X509_ASN_ENCODING (Some ''CryptEncodeObject'') (StringPtr ''1.2.3'')
       (Some []) None
     = \<lparr>reg_ret = True, reg_error = None,
        reg_store = Map.empty(key_example \<mapsto> Map.empty(''Dll'' \<mapsto> REG_SZ []))\<rparr>
   \<and> Map.empty(key_example \<mapsto> Map.empty(''Dll'' \<mapsto> REG_SZ [])) \<noteq> (Map.empty :: registry)"
proof -
  have k: "CRYPT_GetKeyName (\<lambda>_. True) X509_ASN_ENCODING ''CryptEncodeObject''
             (StringPtr ''1.2.3'') = Some key_example"
    by code_simp
  have e0: "GET_CERT_ENCODING_TYPE PKCS_7_ASN_ENCODING = 0"
    by (simp add: GET_CERT_ENCODING_TYPE_def CERT_ENCODING_TYPE_MASK_def PKCS_7_ASN_ENCODING_def)
  have e1: "GET_CERT_ENCODING_TYPE X509_ASN_ENCODING \<noteq> 0"
    by (simp add: GET_CERT_ENCODING_TYPE_def CERT_ENCODING_TYPE_MASK_def X509_ASN_ENCODING_def)
  have n: "\<not> is_null (StringPtr ''1.2.3'')"
    by (simp add: is_null_def)
  show ?thesis
    by (simp add: CryptRegisterOIDFunction_def e0 e1 n k RegCreateKey_def RegSetValueEx_def)
qed

text \<open>
  Claim C8 as amended: the register operation returns success and leaves the store as
  it is when the encoding family is not a certificate family or when the module name is
  null; when the family is a certificate family and the module name is not null, it
  fails with \<open>ERROR_INVALID_PARAMETER\<close>, the store left as it is, when the function
  name or the structure identifier is null.
\<close>

theorem Register_guards_in_order:
  "(GET_CERT_ENCODING_TYPE dwEncodingType = 0 \<or> pwszDll = None \<longrightarrow>
      CryptRegisterOIDFunction adv reg dwEncodingType pszFuncName pszOID pwszDll
          pszOverrideFuncName
        = \<lparr>reg_ret = True, reg_error = None, reg_store = reg\<rparr>)
   \<and> (GET_CERT_ENCODING_TYPE dwEncodingType \<noteq> 0 \<and> pwszDll \<noteq> None
        \<and> (pszFuncName = None \<or> is_null pszOID) \<longrightarrow>
      CryptRegisterOIDFunction adv reg dwEncodingType pszFuncName pszOID pwszDll
          pszOverrideFuncName
        = \<lparr>reg_ret = False, reg_error = Some ERROR_INVALID_PARAMETER, reg_store = reg\<rparr>)"
  by (auto simp: CryptRegisterOIDFunction_def split: option.splits)

text \<open>
  The theorem at four calls on an empty store: a family that is no certificate family,
  a null module name, a null function name and a null structure identifier.
\<close>

theorem Register_guards_in_order_witness:
  "CryptRegisterOIDFunction \<lparr>RegCreateKeyA_ok = (\<lambda>_. True), HeapAlloc_ok = (\<lambda>_. True)\<rparr>
       Map.empty PKCS_7_ASN_ENCODING (Some ''CryptEncodeObject'') (StringPtr ''1.2.3'')
       (Some ''plugin.dll'') None
     = \<lparr>reg_ret = True, reg_error = None, reg_store = Map.empty\<rparr>
   \<and> CryptRegisterOIDFunction \<lparr>RegCreateKeyA_ok = (\<lambda>_. True), HeapAlloc_ok = (\<lambda>_. True)\<rparr>
       Map.empty X509_ASN_ENCODING (Some ''CryptEncodeObject'') (StringPtr ''1.2.3'') None None
     = \<lparr>reg_ret = True, reg_error = None, reg_store = Map.empty\<rparr>
   \<and> CryptRegisterOIDFunction \<lparr>RegCreateKeyA_ok = (\<lambda>_. True), HeapAlloc_ok = (\<lambda>_. True)\<rparr>
       Map.empty X509_ASN_ENCODING None (StringPtr ''1.2.3'') (Some ''plugin.dll'') None
     = \<lparr>reg_ret = False, reg_error = Some ERROR_INVALID_PARAMETER, reg_store = Map.empty\<rparr>
   \<and> CryptRegisterOIDFunction \<lparr>RegCreateKeyA_ok = (\<lambda>_. True), HeapAlloc_ok = (\<lambda>_. True)\<rparr>
       Map.empty X509_ASN_ENCODING (Some ''CryptEncodeObject'') (IntResource 0)
       (Some ''plugin.dll'') None
     = \<lparr>reg_ret = False, reg_error = Some ERROR_INVALID_PARAMETER, reg_store = Map.empty\<rparr>"
proof -
  let ?adv = "\<lparr>RegCreateKeyA_ok = (\<lambda>_. True), HeapAlloc_ok = (\<lambda>_. True)\<rparr>"
  have e0: "GET_CERT_ENCODING_TYPE PKCS_7_ASN_ENCODING = 0"
    by (simp add: GET_CERT_ENCODING_TYPE_def CERT_ENCODING_TYPE_MASK_def PKCS_7_ASN_ENCODING_def)
  have e1: "GET_CERT_ENCODING_TYPE X509_ASN_ENCODING \<noteq> 0"
    by (simp add: GET_CERT_ENCODING_TYPE_def CERT_ENCODING_TYPE_MASK_def X509_ASN_ENCODING_def)
  show ?thesis
    using
      Register_guards_in_order [where dwEncodingType = PKCS_7_ASN_ENCODING
        and pwszDll = "Some ''plugin.dll''" and pszFuncName = "Some ''CryptEncodeObject''"
        and pszOID = "StringPtr ''1.2.3''" and adv = ?adv and reg = Map.empty
        and pszOverrideFuncName = None]
      Register_guards_in_order [where dwEncodingType = X509_ASN_ENCODING
        and pwszDll = None and pszFuncName = "Some ''CryptEncodeObject''"
        and pszOID = "StringPtr ''1.2.3''" and adv = ?adv and reg = Map.empty
        and pszOverrideFuncName = None]
      Register_guards_in_order [where dwEncodingType = X509_ASN_ENCODING
        and pwszDll = "Some ''plugin.dll''" and pszFuncName = None
        and pszOID = "StringPtr ''1.2.3''" and adv = ?adv and reg = Map.empty
        and pszOverrideFuncName = None]
      Register_guards_in_order [where dwEncodingType = X509_ASN_ENCODING
        and pwszDll = "Some ''plugin.dll''" and pszFuncName = "Some ''CryptEncodeObject''"
        and pszOID = "IntResource 0" and adv = ?adv and reg = Map.empty
        and pszOverrideFuncName = None]
      e0 e1
    by (simp add: is_null_def)
qed

text \<open>
  Claim C9: each of the four public functions fails with \<open>ERROR_INVALID_PARAMETER\<close>
  of its own only when the output pointer and the size cell are both null. With a
  non-null output pointer and a null size cell the check passes and the call goes on
  with the arguments as given: the functions with \<open>Ex\<close> call the function they select
  when the encoding type is known, and the simple functions call the function
  registered under their name, or else the function with \<open>Ex\<close>.
\<close>

theorem Public_functions_parameter_check:
  fixes env :: "('p, 'i, 'r) dispatch_env"
  shows
  "(CryptEncodeObject env args = Inl ERROR_INVALID_PARAMETER
      \<longleftrightarrow> pvOut args = None \<and> pcbOut args = None)
   \<and> (CryptEncodeObjectEx env args = Inl ERROR_INVALID_PARAMETER
      \<longleftrightarrow> pvOut args = None \<and> pcbOut args = None)
   \<and> (CryptDecodeObject env args = Inl ERROR_INVALID_PARAMETER
      \<longleftrightarrow> pvOut args = None \<and> pcbOut args = None)
   \<and> (CryptDecodeObjectEx env args = Inl ERROR_INVALID_PARAMETER
      \<longleftrightarrow> pvOut args = None \<and> pcbOut args = None)
   \<and> (pvOut args \<noteq> None \<and> pcbOut args = None \<longrightarrow>
        (\<forall>f. encoding_known (encodingType args)
              \<and> select_func env ''CryptEncodeObjectEx'' args = Some f
           \<longrightarrow> CryptEncodeObjectEx env args = Inr (invoke env f args))
      \<and> (\<forall>f. encoding_known (encodingType args)
              \<and> select_func env ''CryptDecodeObjectEx'' args = Some f
           \<longrightarrow> CryptDecodeObjectEx env args = Inr (invoke env f args))
      \<and> (\<forall>p. CRYPT_GetFunc env (encodingType args) (structType args) ''CryptEncodeObject''
                = Some p
           \<longrightarrow> CryptEncodeObject env args = Inr (invoke env (Plugin p) args))
      \<and> (\<forall>p. CRYPT_GetFunc env (encodingType args) (structType args) ''CryptDecodeObject''
                = Some p
           \<longrightarrow> CryptDecodeObject env args = Inr (invoke env (Plugin p) args))
      \<and> (CRYPT_GetFunc env (encodingType args) (structType args) ''CryptEncodeObject'' = None
           \<longrightarrow> CryptEncodeObject env args
                 = CryptEncodeObjectEx env (args\<lparr>flags := 0, para := None\<rparr>))
      \<and> (CRYPT_GetFunc env (encodingType args) (structType args) ''CryptDecodeObject'' = None
           \<longrightarrow> CryptDecodeObject env args
                 = CryptDecodeObjectEx env (args\<lparr>para := None\<rparr>)))"
  by (auto simp: CryptEncodeObject_def CryptEncodeObjectEx_def CryptDecodeObject_def
      CryptDecodeObjectEx_def split: option.splits)

text \<open>
  The theorem at the example call: the functions with \<open>Ex\<close> call the bit string
  codec, \<open>CryptDecodeObject\<close> calls the registered function, \<open>CryptEncodeObject\<close>
  reaches the bit string codec with the flags cleared; with the output pointer null as
  well, the call fails with \<open>ERROR_INVALID_PARAMETER\<close>.
\<close>

theorem Public_functions_parameter_check_witness:
  "CryptEncodeObjectEx env_example args_example = Inr (Builtin AsnBits, args_example)
   \<and> CryptDecodeObjectEx env_example args_example = Inr (Builtin AsnBits, args_example)
   \<and> CryptDecodeObject env_example args_example = Inr (Plugin 7, args_example)
   \<and> CryptEncodeObject env_example args_example
       = Inr (Builtin AsnBits, args_example\<lparr>flags := 0, para := None\<rparr>)
   \<and> CryptEncodeObjectEx env_example (args_example\<lparr>pvOut := None\<rparr>)
       = Inl ERROR_INVALID_PARAMETER"
proof -
  have known: "encoding_known X509_ASN_ENCODING"
    by (simp add: encoding_known_def X509_ASN_ENCODING_def CERT_ENCODING_TYPE_MASK_def)
  have bits: "builtin_for (IntResource X509_BITS) = Some AsnBits"
    by (simp add: builtin_for_def X509_BITS_def X509_NAME_def X509_OCTET_STRING_def)
  show ?thesis
    using
      Public_functions_parameter_check [of env_example args_example]
      Public_functions_parameter_check [of env_example "args_example\<lparr>flags := 0, para := None\<rparr>"]
      Public_functions_parameter_check [of env_example "args_example\<lparr>pvOut := None\<rparr>"]
      known bits
    by (simp add: env_example_def args_example_def select_func_def)
qed

text \<open>
  Claim C10: a sizing call (null output pointer) of the decoders for the fixed-width
  integer, the enumerated value, UTCTime, GeneralizedTime and the choice of time, on an
  input that is not null and not empty, returns \<open>TRUE\<close> and the fixed size (4 for the
  integer kinds, 8 for the time kinds) whatever the input holds: neither tag, length
  octets nor contents are looked at.
\<close>

theorem Sizing_decode_skips_validation:
  assumes "cbEncoded \<noteq> 0"
  shows "CRYPT_AsnDecodeInt os (Some m) cbEncoded dwFlags pDecodePara None cb = dec_ok 4 None
    \<and> CRYPT_AsnDecodeEnumerated os (Some m) cbEncoded dwFlags pDecodePara None cb
        = dec_ok 4 None
    \<and> CRYPT_AsnDecodeUtcTime os tm (Some m) cbEncoded dwFlags pDecodePara None cb
        = dec_ok 8 None
    \<and> CRYPT_AsnDecodeGeneralizedTime os tm (Some m) cbEncoded dwFlags pDecodePara None cb
        = dec_ok 8 None
    \<and> CRYPT_AsnDecodeChoiceOfTime os tm (Some m) cbEncoded dwFlags pDecodePara None cb
        = dec_ok 8 None"
  using assms
  by (simp add: CRYPT_AsnDecodeInt_def CRYPT_AsnDecodeEnumerated_def CRYPT_AsnDecodeUtcTime_def
      CRYPT_AsnDecodeGeneralizedTime_def CRYPT_AsnDecodeChoiceOfTime_def)

text \<open>
  The theorem at the two bytes \<open>FF FF\<close>, which are no tag of the five decoders and no
  length they accept.
\<close>

theorem Sizing_decode_skips_validation_witness:
  "CRYPT_AsnDecodeInt local_heap (Some (mem_of [0xFF, 0xFF])) 2 0 None None 0 = dec_ok 4 None
    \<and> CRYPT_AsnDecodeEnumerated local_heap (Some (mem_of [0xFF, 0xFF])) 2 0 None None 0
        = dec_ok 4 None
    \<and> CRYPT_AsnDecodeUtcTime local_heap (time_is time_2015_04_15) (Some (mem_of [0xFF, 0xFF]))
        2 0 None None 0 = dec_ok 8 None
    \<and> CRYPT_AsnDecodeGeneralizedTime local_heap (time_is time_2015_04_15)
        (Some (mem_of [0xFF, 0xFF])) 2 0 None None 0 = dec_ok 8 None
    \<and> CRYPT_AsnDecodeChoiceOfTime local_heap (time_is time_2015_04_15)
        (Some (mem_of [0xFF, 0xFF])) 2 0 None None 0 = dec_ok 8 None"
proof -
  have ne: "(2 :: DWORD) \<noteq> 0" by simp
  show ?thesis
    by (rule Sizing_decode_skips_validation [OF ne])
qed

end
